theory Spec2Isabelle
  imports Complex_Main
begin

section \<open>JavaScript values\<close>

text \<open>
  The engine (\<^verbatim>\<open>src/background/index.ts\<close>) and the panel
  (\<^verbatim>\<open>sidepanel/app.tsx\<close>) exchange untyped values: protocol events arrive as
  \<^verbatim>\<open>unknown\<close>, and every message is re-validated field by field on the receiving
  side. Such values are modelled by \<open>jsval\<close>. A JavaScript number is either a finite
  real or one of the three non-finite doubles. A string is kept as its UTF-8 bytes, so
  that \<open>length\<close> is what \<^verbatim>\<open>TextEncoder.encode(text).length\<close> counts.
\<close>

datatype jsnum = Fin real | NaN | PosInfinity | NegInfinity

datatype jsval =
    JUndefined
  | JNull
  | JBool bool
  | JNum jsnum
  | JStr string
  | JArr "jsval list"
  | JObj "(string \<times> jsval) list"

text \<open>
  Property read \<^verbatim>\<open>value.key\<close>: an absent key reads as \<^verbatim>\<open>undefined\<close>. None of
  the keys the code reads is an array index, \<^verbatim>\<open>length\<close> or a property of a
  primitive, so on an array and on a boolean, number or string every such read is
  \<^verbatim>\<open>undefined\<close>. A read on \<^verbatim>\<open>undefined\<close> or \<^verbatim>\<open>null\<close> throws; the two
  places where that can happen test \<open>nullish\<close> first.
\<close>

fun getProp :: "jsval \<Rightarrow> string \<Rightarrow> jsval" where
  "getProp (JObj kvs) k = (case map_of kvs k of None \<Rightarrow> JUndefined | Some v \<Rightarrow> v)"
| "getProp _ k = JUndefined"

text \<open>The operator \<^verbatim>\<open>key in value\<close>.\<close>

fun hasProp :: "jsval \<Rightarrow> string \<Rightarrow> bool" where
  "hasProp (JObj kvs) k = (case map_of kvs k of None \<Rightarrow> False | Some v \<Rightarrow> True)"
| "hasProp _ k = False"

text \<open>\<^verbatim>\<open>typeof value === 'object' && value !== null\<close>\<close>

fun isRecord :: "jsval \<Rightarrow> bool" where
  "isRecord (JObj kvs) = True"
| "isRecord (JArr xs) = True"
| "isRecord _ = False"

fun asString :: "jsval \<Rightarrow> string option" where
  "asString (JStr s) = Some s"
| "asString _ = None"

text \<open>\<^verbatim>\<open>typeof value === 'number' && Number.isFinite(value)\<close>\<close>

fun asNumber :: "jsval \<Rightarrow> real option" where
  "asNumber (JNum (Fin x)) = Some x"
| "asNumber _ = None"

fun asBoolean :: "jsval \<Rightarrow> bool option" where
  "asBoolean (JBool b) = Some b"
| "asBoolean _ = None"

section \<open>Shared message types (\<^verbatim>\<open>src/shared/messages.ts\<close>)\<close>

text \<open>
  Field names carry a prefix per interface, since several interfaces share names
  (\<^verbatim>\<open>text\<close>, \<^verbatim>\<open>error\<close>, \<^verbatim>\<open>status\<close>, ...). An optional field and a
  \<^verbatim>\<open>T | null\<close> field are both an \<open>option\<close>.
\<close>

record AppError =
  err_code :: string
  err_message :: string
  err_cause :: jsval

record ResponseBody =
  rs_text :: "string option"
  rs_isBase64 :: bool
  rs_truncated :: bool
  rs_error :: "AppError option"

record RequestBody =
  rq_text :: "string option"
  rq_truncated :: bool
  rq_error :: "AppError option"

record ResponseRecord =
  rec_id :: string
  rec_url :: string
  rec_method :: string
  rec_status :: real
  rec_mimeType :: string
  rec_resourceType :: string
  rec_timeStamp :: real
  rec_encodedDataLength :: real
  rec_requestBody :: RequestBody
  rec_body :: ResponseBody

datatype PanelToBackgroundMessage =
    DebuggerAttach real
  | DebuggerDetach real
  | DebuggerStatus
  | RecordsGet
  | RecordsClear

datatype BackgroundToPanelMessage =
    StatusUpdate "real option"
  | RecordsSnapshot "ResponseRecord list" "real option"
  | RecordsAdded ResponseRecord
  | ErrorMessage AppError

section \<open>Engine state (\<^verbatim>\<open>src/background/index.ts\<close>)\<close>

definition MAX_RECORDS :: nat where
  "MAX_RECORDS = 200"

definition MAX_BODY_BYTES :: real where
  "MAX_BODY_BYTES = 200 * 1024"

definition MAX_REQUEST_BODY_BYTES :: nat where
  "MAX_REQUEST_BODY_BYTES = 200 * 1024"

definition ALLOWED_RESOURCE_TYPES :: "string set" where
  "ALLOWED_RESOURCE_TYPES = {''Fetch'', ''XHR''}"

definition EVENT_REQUEST_WILL_BE_SENT :: string where
  "EVENT_REQUEST_WILL_BE_SENT = ''Network.requestWillBeSent''"

definition EVENT_RESPONSE_RECEIVED :: string where
  "EVENT_RESPONSE_RECEIVED = ''Network.responseReceived''"

definition EVENT_LOADING_FINISHED :: string where
  "EVENT_LOADING_FINISHED = ''Network.loadingFinished''"

definition EVENT_LOADING_FAILED :: string where
  "EVENT_LOADING_FAILED = ''Network.loadingFailed''"

text \<open>The human-readable messages of the source, as UTF-8 bytes.\<close>

definition MSG_BODY_TOO_LARGE :: string where
  "MSG_BODY_TOO_LARGE =
    [CHR 0xE5, CHR 0x93, CHR 0x8D, CHR 0xE5, CHR 0xBA, CHR 0x94, CHR 0xE4, CHR 0xBD, CHR 0x93,
     CHR 0xE8, CHR 0xB6, CHR 0x85, CHR 0xE8, CHR 0xBF, CHR 0x87, CHR 0xE9, CHR 0x98, CHR 0x88,
     CHR 0xE5, CHR 0x80, CHR 0xBC, CHR 0xEF, CHR 0xBC, CHR 0x8C, CHR 0xE5, CHR 0xB7, CHR 0xB2,
     CHR 0xE8, CHR 0xB7, CHR 0xB3, CHR 0xE8, CHR 0xBF, CHR 0x87]"

definition MSG_BODY_READ_FAILED :: string where
  "MSG_BODY_READ_FAILED =
    [CHR 0xE8, CHR 0xAF, CHR 0xBB, CHR 0xE5, CHR 0x8F, CHR 0x96, CHR 0xE5, CHR 0x93, CHR 0x8D,
     CHR 0xE5, CHR 0xBA, CHR 0x94, CHR 0xE4, CHR 0xBD, CHR 0x93, CHR 0xE5, CHR 0xA4, CHR 0xB1,
     CHR 0xE8, CHR 0xB4, CHR 0xA5]"

definition MSG_REQUEST_BODY_TOO_LARGE :: string where
  "MSG_REQUEST_BODY_TOO_LARGE =
    [CHR 0xE8, CHR 0xAF, CHR 0xB7, CHR 0xE6, CHR 0xB1, CHR 0x82, CHR 0xE4, CHR 0xBD, CHR 0x93,
     CHR 0xE8, CHR 0xB6, CHR 0x85, CHR 0xE8, CHR 0xBF, CHR 0x87, CHR 0xE9, CHR 0x98, CHR 0x88,
     CHR 0xE5, CHR 0x80, CHR 0xBC, CHR 0xEF, CHR 0xBC, CHR 0x8C, CHR 0xE5, CHR 0xB7, CHR 0xB2,
     CHR 0xE8, CHR 0xB7, CHR 0xB3, CHR 0xE8, CHR 0xBF, CHR 0x87, CHR 0xE3, CHR 0x80, CHR 0x82]"

definition MSG_REQUEST_BODY_READ_FAILED :: string where
  "MSG_REQUEST_BODY_READ_FAILED =
    [CHR 0xE8, CHR 0xAF, CHR 0xBB, CHR 0xE5, CHR 0x8F, CHR 0x96, CHR 0xE8, CHR 0xAF, CHR 0xB7,
     CHR 0xE6, CHR 0xB1, CHR 0x82, CHR 0xE4, CHR 0xBD, CHR 0x93, CHR 0xE5, CHR 0xA4, CHR 0xB1,
     CHR 0xE8, CHR 0xB4, CHR 0xA5]"

definition MSG_REQUEST_FAILED :: string where
  "MSG_REQUEST_FAILED =
    [CHR 0xE8, CHR 0xAF, CHR 0xB7, CHR 0xE6, CHR 0xB1, CHR 0x82, CHR 0xE5, CHR 0xA4, CHR 0xB1,
     CHR 0xE8, CHR 0xB4, CHR 0xA5, CHR 0xEF, CHR 0xBC, CHR 0x8C, CHR 0xE6, CHR 0x9C, CHR 0xAA,
     CHR 0xE8, CHR 0x8E, CHR 0xB7, CHR 0xE5, CHR 0x8F, CHR 0x96, CHR 0xE5, CHR 0x93, CHR 0x8D,
     CHR 0xE5, CHR 0xBA, CHR 0x94, CHR 0xE4, CHR 0xBD, CHR 0x93]"

definition MSG_ATTACH_FAILED :: string where
  "MSG_ATTACH_FAILED =
    [CHR 0xE9, CHR 0x99, CHR 0x84, CHR 0xE5, CHR 0x8A, CHR 0xA0, CHR 0xE8, CHR 0xB0, CHR 0x83,
     CHR 0xE8, CHR 0xAF, CHR 0x95, CHR 0xE5, CHR 0x99, CHR 0xA8, CHR 0xE5, CHR 0xA4, CHR 0xB1,
     CHR 0xE8, CHR 0xB4, CHR 0xA5]"

definition MSG_DETACH_FAILED :: string where
  "MSG_DETACH_FAILED =
    [CHR 0xE8, CHR 0xA7, CHR 0xA3, CHR 0xE9, CHR 0x99, CHR 0xA4, CHR 0xE8, CHR 0xB0, CHR 0x83,
     CHR 0xE8, CHR 0xAF, CHR 0x95, CHR 0xE5, CHR 0x99, CHR 0xA8, CHR 0xE5, CHR 0xA4, CHR 0xB1,
     CHR 0xE8, CHR 0xB4, CHR 0xA5]"

record PendingRequest =
  p_requestId :: string
  p_url :: string
  p_method :: string
  p_hasPostData :: bool
  p_requestPostData :: "string option"
  p_status :: real
  p_mimeType :: string
  p_resourceType :: string
  p_timeStamp :: real

text \<open>
  A call on \<^verbatim>\<open>chrome.debugger\<close>: the attach handshake, the detach, or
  \<^verbatim>\<open>sendCommand\<close> with its target, its method and the \<^verbatim>\<open>requestId\<close> parameter
  (absent for \<^verbatim>\<open>Network.enable\<close>). The target of \<^verbatim>\<open>sendCommand\<close> is an
  \<open>option\<close> because \<open>handleLoadingFinished\<close> passes the module variable
  \<^verbatim>\<open>attachedTabId\<close>, re-read after an \<^verbatim>\<open>await\<close>, where it can be \<^verbatim>\<open>null\<close>.
\<close>

datatype command =
    ChromeAttach real
  | ChromeDetach real
  | SendCommand "real option" string "string option"

text \<open>
  What the browser answers to a call: \<open>Inl cause\<close> when \<^verbatim>\<open>chrome.runtime.lastError\<close>
  is set (the promise rejects with it), \<open>Inr result\<close> otherwise.
\<close>

type_synonym debugger = "command \<Rightarrow> jsval + jsval"

text \<open>
  The module variables, together with two logs of the effects on the outside: every
  \<^verbatim>\<open>port.postMessage\<close> (the port and the message) and every call on
  \<^verbatim>\<open>chrome.debugger\<close>, both oldest first. A port is an opaque handle; the set of
  ports is a list without duplicates in insertion order, the order a JavaScript
  \<^verbatim>\<open>Set\<close> iterates in.
\<close>

record engine =
  attachedTabId :: "real option"
  panelPorts :: "nat list"
  pendingRequests :: "string \<rightharpoonup> PendingRequest"
  recordBuffer :: "ResponseRecord list"
  posted :: "(nat \<times> BackgroundToPanelMessage) list"
  issued :: "command list"

definition createError :: "string \<Rightarrow> string \<Rightarrow> jsval \<Rightarrow> AppError" where
  "createError c m cs = \<lparr>err_code = c, err_message = m, err_cause = cs\<rparr>"

definition isAllowedResourceType :: "string \<Rightarrow> bool" where
  "isAllowedResourceType v = (v \<in> ALLOWED_RESOURCE_TYPES)"

definition broadcast :: "BackgroundToPanelMessage \<Rightarrow> engine \<Rightarrow> engine" where
  "broadcast m st = st\<lparr>posted := posted st @ map (\<lambda>port. (port, m)) (panelPorts st)\<rparr>"

definition sendSnapshot :: "nat \<Rightarrow> engine \<Rightarrow> engine" where
  "sendSnapshot port st =
     st\<lparr>posted := posted st @ [(port, RecordsSnapshot (recordBuffer st) (attachedTabId st))]\<rparr>"

definition sendStatusUpdate :: "engine \<Rightarrow> engine" where
  "sendStatusUpdate st = broadcast (StatusUpdate (attachedTabId st)) st"

definition sendError :: "AppError \<Rightarrow> engine \<Rightarrow> engine" where
  "sendError e st = broadcast (ErrorMessage e) st"

text \<open>
  \<^verbatim>\<open>if (recordBuffer.length >= MAX_RECORDS) recordBuffer.shift()\<close>, then the push and
  the broadcast. \<^verbatim>\<open>shift\<close> on an empty array removes nothing, as \<open>tl []\<close> does.
\<close>

definition pushRecord :: "ResponseRecord \<Rightarrow> engine \<Rightarrow> engine" where
  "pushRecord r st =
     broadcast (RecordsAdded r)
       (st\<lparr>recordBuffer :=
             (if length (recordBuffer st) \<ge> MAX_RECORDS then tl (recordBuffer st)
              else recordBuffer st) @ [r]\<rparr>)"

definition getTextByteLength :: "string \<Rightarrow> nat" where
  "getTextByteLength t = length t"

section \<open>Body fetcher\<close>

text \<open>
  \<^verbatim>\<open>sendDebuggerCommand(tabId, method, params)\<close>: the call is made at once, inside
  the promise executor; the promise rejects with \<^verbatim>\<open>lastError\<close> or resolves with the
  result. The second component is the call made.
\<close>

definition sendDebuggerCommand ::
  "debugger \<Rightarrow> real option \<Rightarrow> string \<Rightarrow> string option \<Rightarrow> (jsval + jsval) \<times> command list" where
  "sendDebuggerCommand dbg tabId method requestId =
     (dbg (SendCommand tabId method requestId), [SendCommand tabId method requestId])"

text \<open>
  A property read on \<^verbatim>\<open>undefined\<close> or \<^verbatim>\<open>null\<close> throws a \<^verbatim>\<open>TypeError\<close>.
  Both reads of a command result sit inside a \<^verbatim>\<open>try\<close>, whose \<^verbatim>\<open>catch\<close> stores
  the thrown value as the cause; the engine never looks inside it.
\<close>

definition TypeErrorValue :: jsval where
  "TypeErrorValue = JObj [(''name'', JStr ''TypeError'')]"

fun nullish :: "jsval \<Rightarrow> bool" where
  "nullish JUndefined = True"
| "nullish JNull = True"
| "nullish _ = False"

text \<open>
  The result pairs the body with the calls made on \<^verbatim>\<open>chrome.debugger\<close> while
  building it.
\<close>

definition buildResponseBody ::
  "debugger \<Rightarrow> real option \<Rightarrow> string \<Rightarrow> real \<Rightarrow> ResponseBody \<times> command list" where
  "buildResponseBody dbg tabId requestId encodedDataLength =
     (if encodedDataLength > MAX_BODY_BYTES then
        (\<lparr>rs_text = None, rs_isBase64 = False, rs_truncated = True,
          rs_error = Some (createError ''BODY_TOO_LARGE'' MSG_BODY_TOO_LARGE JUndefined)\<rparr>, [])
      else
        (case sendDebuggerCommand dbg tabId ''Network.getResponseBody'' (Some requestId) of
           (Inl e, cmds) \<Rightarrow>
             (\<lparr>rs_text = None, rs_isBase64 = False, rs_truncated = False,
               rs_error = Some (createError ''BODY_READ_FAILED'' MSG_BODY_READ_FAILED e)\<rparr>, cmds)
         | (Inr result, cmds) \<Rightarrow>
             if nullish result then
               (\<lparr>rs_text = None, rs_isBase64 = False, rs_truncated = False,
                 rs_error = Some (createError ''BODY_READ_FAILED'' MSG_BODY_READ_FAILED
                                    TypeErrorValue)\<rparr>, cmds)
             else
               (\<lparr>rs_text = asString (getProp result ''body''),
                 rs_isBase64 = (case asBoolean (getProp result ''base64Encoded'') of
                                  None \<Rightarrow> False | Some b \<Rightarrow> b),
                 rs_truncated = False, rs_error = None\<rparr>, cmds)))"

text \<open>
  In \<open>buildRequestBody\<close> the value \<open>Inl\<close> of the local \<open>fetched\<close> is the
  \<^verbatim>\<open>return\<close> inside the \<^verbatim>\<open>catch\<close>; \<open>Inr\<close> carries \<^verbatim>\<open>resolvedPostData\<close>
  on to the last two checks.
\<close>

definition buildRequestBody ::
  "debugger \<Rightarrow> real option \<Rightarrow> string \<Rightarrow> bool \<Rightarrow> string option \<Rightarrow> RequestBody \<times> command list" where
  "buildRequestBody dbg tabId requestId hasPostData requestPostData =
     (if \<not> hasPostData \<and> requestPostData = None then
        (\<lparr>rq_text = None, rq_truncated = False, rq_error = None\<rparr>, [])
      else if (case requestPostData of None \<Rightarrow> False
               | Some t \<Rightarrow> getTextByteLength t > MAX_REQUEST_BODY_BYTES) then
        (\<lparr>rq_text = None, rq_truncated = True,
          rq_error = Some (createError ''REQUEST_BODY_TOO_LARGE'' MSG_REQUEST_BODY_TOO_LARGE
                             JUndefined)\<rparr>, [])
      else
        let fetched =
          (if requestPostData = None \<and> tabId \<noteq> None then
             (case sendDebuggerCommand dbg tabId ''Network.getRequestPostData'' (Some requestId) of
                (Inl e, cmds) \<Rightarrow>
                  Inl (\<lparr>rq_text = None, rq_truncated = False,
                        rq_error = Some (createError ''REQUEST_BODY_READ_FAILED''
                                           MSG_REQUEST_BODY_READ_FAILED e)\<rparr>, cmds)
              | (Inr result, cmds) \<Rightarrow>
                  if nullish result then
                    Inl (\<lparr>rq_text = None, rq_truncated = False,
                          rq_error = Some (createError ''REQUEST_BODY_READ_FAILED''
                                             MSG_REQUEST_BODY_READ_FAILED TypeErrorValue)\<rparr>, cmds)
                  else Inr (asString (getProp result ''postData''), cmds))
           else Inr (requestPostData, []))
        in
          (case fetched of
             Inl early \<Rightarrow> early
           | Inr (resolvedPostData, cmds) \<Rightarrow>
               (case resolvedPostData of
                  None \<Rightarrow> (\<lparr>rq_text = None, rq_truncated = False, rq_error = None\<rparr>, cmds)
                | Some t \<Rightarrow>
                    if getTextByteLength t > MAX_REQUEST_BODY_BYTES then
                      (\<lparr>rq_text = None, rq_truncated = True,
                        rq_error = Some (createError ''REQUEST_BODY_TOO_LARGE''
                                           MSG_REQUEST_BODY_TOO_LARGE JUndefined)\<rparr>, cmds)
                    else (\<lparr>rq_text = Some t, rq_truncated = False, rq_error = None\<rparr>, cmds))))"

section \<open>Parsing panel messages and protocol events\<close>

definition parsePanelMessage :: "jsval \<Rightarrow> PanelToBackgroundMessage option" where
  "parsePanelMessage v =
     (if \<not> isRecord v then None
      else
        (case asString (getProp v ''type'') of
           None \<Rightarrow> None
         | Some messageType \<Rightarrow>
             if messageType = [] then None
             else if messageType = ''debugger.attach'' then
               (case asNumber (getProp v ''tabId'') of
                  None \<Rightarrow> None | Some tabId \<Rightarrow> Some (DebuggerAttach tabId))
             else if messageType = ''debugger.detach'' then
               (case asNumber (getProp v ''tabId'') of
                  None \<Rightarrow> None | Some tabId \<Rightarrow> Some (DebuggerDetach tabId))
             else if messageType = ''debugger.status'' then Some DebuggerStatus
             else if messageType = ''records.get'' then Some RecordsGet
             else if messageType = ''records.clear'' then Some RecordsClear
             else None))"

text \<open>
  \<open>now\<close> is the value of \<^verbatim>\<open>Date.now()\<close>. A test \<^verbatim>\<open>!s\<close> on a
  \<^verbatim>\<open>string | null\<close> holds for \<^verbatim>\<open>null\<close> and for the empty string: it is the
  \<open>None\<close> branch together with the test \<open>s = []\<close>.
\<close>

definition parseRequestWillBeSent :: "real \<Rightarrow> jsval \<Rightarrow> PendingRequest option" where
  "parseRequestWillBeSent now v =
     (if \<not> isRecord v then None
      else
        (case asString (getProp v ''requestId'') of
           None \<Rightarrow> None
         | Some requestId \<Rightarrow>
             if requestId = [] then None
             else if \<not> isRecord (getProp v ''request'') then None
             else
               let requestValue = getProp v ''request'' in
               (case asString (getProp requestValue ''url'') of
                  None \<Rightarrow> None
                | Some url \<Rightarrow>
                    (case asString (getProp requestValue ''method'') of
                       None \<Rightarrow> None
                     | Some method \<Rightarrow>
                         if url = [] then None
                         else if method = [] then None
                         else
                           let requestPostData = asString (getProp requestValue ''postData'');
                               hasPostData = asBoolean (getProp requestValue ''hasPostData'');
                               resolvedHasPostData =
                                 (case hasPostData of
                                    None \<Rightarrow> requestPostData \<noteq> None | Some b \<Rightarrow> b)
                           in
                           (case asString (getProp v ''type'') of
                              None \<Rightarrow> None
                            | Some resourceType \<Rightarrow>
                                if resourceType = [] then None
                                else if isAllowedResourceType resourceType then
                                  Some \<lparr>p_requestId = requestId, p_url = url,
                                        p_method = method,
                                        p_hasPostData = resolvedHasPostData,
                                        p_requestPostData = requestPostData,
                                        p_status = 0, p_mimeType = [],
                                        p_resourceType = resourceType,
                                        p_timeStamp = now\<rparr>
                                else None)))))"

text \<open>
  The last test of the source is \<^verbatim>\<open>resourceType && !isAllowedResourceType(resourceType)\<close>:
  an absent type and the empty string both pass it. The object spread copies every field
  of \<open>pending\<close>; \<^verbatim>\<open>resourceType ?? pending.resourceType\<close> keeps the old type only when
  the event has no string type.
\<close>

definition applyResponseReceived :: "PendingRequest \<Rightarrow> jsval \<Rightarrow> PendingRequest option" where
  "applyResponseReceived pending v =
     (if \<not> isRecord v then None
      else if \<not> isRecord (getProp v ''response'') then None
      else
        let responseValue = getProp v ''response'' in
        (case asNumber (getProp responseValue ''status'') of
           None \<Rightarrow> None
         | Some status \<Rightarrow>
             (case asString (getProp responseValue ''mimeType'') of
                None \<Rightarrow> None
              | Some mimeType \<Rightarrow>
                  if mimeType = [] then None
                  else
                    (case asString (getProp v ''type'') of
                       None \<Rightarrow> Some (pending\<lparr>p_status := status, p_mimeType := mimeType\<rparr>)
                     | Some resourceType \<Rightarrow>
                         if resourceType \<noteq> [] \<and> \<not> isAllowedResourceType resourceType then None
                         else Some (pending\<lparr>p_status := status, p_mimeType := mimeType,
                                     p_resourceType := resourceType\<rparr>)))))"

definition parseLoadingFinished :: "jsval \<Rightarrow> (string \<times> real) option" where
  "parseLoadingFinished v =
     (if \<not> isRecord v then None
      else
        (case asString (getProp v ''requestId'') of
           None \<Rightarrow> None
         | Some requestId \<Rightarrow>
             if requestId = [] then None
             else
               (case asNumber (getProp v ''encodedDataLength'') of
                  None \<Rightarrow> None
                | Some encodedDataLength \<Rightarrow> Some (requestId, encodedDataLength))))"

definition parseLoadingFailed :: "jsval \<Rightarrow> string option" where
  "parseLoadingFailed v =
     (if \<not> isRecord v then None
      else
        (case asString (getProp v ''requestId'') of
           None \<Rightarrow> None
         | Some requestId \<Rightarrow> if requestId = [] then None else Some requestId))"

section \<open>Event router and session controller\<close>

text \<open>
  \<^verbatim>\<open>source.tabId !== attachedTabId\<close> compares a \<^verbatim>\<open>number | undefined\<close> with a
  \<^verbatim>\<open>number | null\<close>: the two are equal only when both are the same number.
\<close>

fun sameTab :: "real option \<Rightarrow> real option \<Rightarrow> bool" where
  "sameTab (Some a) (Some b) = (a = b)"
| "sameTab _ _ = False"

text \<open>
  \<open>handleLoadingFinished\<close> and \<open>handleLoadingFailed\<close> are \<^verbatim>\<open>async\<close>: each runs up
  to an \<^verbatim>\<open>await\<close>, then other handlers may run, then it goes on from there with the
  local variables it had. A \<open>task\<close> is such a suspended call with its locals:
  \<^item> \<open>AwaitRequestBodyFinished\<close>: \<open>handleLoadingFinished\<close> at
    \<^verbatim>\<open>await buildRequestBody(...)\<close>;
  \<^item> \<open>AwaitBodyFinished\<close>: \<open>handleLoadingFinished\<close> at
    \<^verbatim>\<open>await buildResponseBody(...)\<close>;
  \<^item> \<open>AwaitRequestBodyFailed\<close>: \<open>handleLoadingFailed\<close> at
    \<^verbatim>\<open>await buildRequestBody(...)\<close>.
  The body builders read no module variable, and the only call they make happens when
  they are called, so the body an \<^verbatim>\<open>await\<close> will deliver is fixed at the call
  by the browser's answer and is stored in the task.
\<close>

datatype task =
    AwaitRequestBodyFinished string real PendingRequest RequestBody
  | AwaitBodyFinished string real PendingRequest RequestBody ResponseBody
  | AwaitRequestBodyFailed string PendingRequest RequestBody

text \<open>The part of \<open>handleLoadingFinished\<close> up to its first \<^verbatim>\<open>await\<close>.\<close>

definition handleLoadingFinished_start ::
  "debugger \<Rightarrow> string \<Rightarrow> real \<Rightarrow> engine \<Rightarrow> task option \<times> engine" where
  "handleLoadingFinished_start dbg requestId encodedDataLength st =
     (case attachedTabId st of
        None \<Rightarrow> (None, st)
      | Some tabId \<Rightarrow>
          (case pendingRequests st requestId of
             None \<Rightarrow> (None, st)
           | Some pending \<Rightarrow>
               (case buildRequestBody dbg (Some tabId) requestId
                       (p_hasPostData pending) (p_requestPostData pending) of
                  (requestBody, cmds) \<Rightarrow>
                    (Some (AwaitRequestBodyFinished requestId encodedDataLength pending requestBody),
                     st\<lparr>issued := issued st @ cmds\<rparr>))))"

text \<open>The part of \<open>handleLoadingFailed\<close> up to its \<^verbatim>\<open>await\<close>.\<close>

definition handleLoadingFailed_start ::
  "debugger \<Rightarrow> string \<Rightarrow> engine \<Rightarrow> task option \<times> engine" where
  "handleLoadingFailed_start dbg requestId st =
     (case attachedTabId st of
        None \<Rightarrow> (None, st)
      | Some tabId \<Rightarrow>
          (case pendingRequests st requestId of
             None \<Rightarrow> (None, st)
           | Some pending \<Rightarrow>
               (case buildRequestBody dbg (Some tabId) requestId
                       (p_hasPostData pending) (p_requestPostData pending) of
                  (requestBody, cmds) \<Rightarrow>
                    (Some (AwaitRequestBodyFailed requestId pending requestBody),
                     st\<lparr>issued := issued st @ cmds\<rparr>))))"

text \<open>
  A suspended call goes on, in the state of the engine at that moment, up to its next
  \<^verbatim>\<open>await\<close> or to its end. \<open>handleLoadingFinished\<close> reads \<^verbatim>\<open>attachedTabId\<close>
  again for \<open>buildResponseBody\<close>; neither handler looks the request up again before
  \<^verbatim>\<open>pendingRequests.delete(requestId)\<close> and \<open>pushRecord\<close>.
\<close>

fun resume :: "debugger \<Rightarrow> task \<Rightarrow> engine \<Rightarrow> task option \<times> engine" where
  "resume dbg (AwaitRequestBodyFinished requestId encodedDataLength pending requestBody) st =
     (case buildResponseBody dbg (attachedTabId st) requestId encodedDataLength of
        (body, cmds) \<Rightarrow>
          (Some (AwaitBodyFinished requestId encodedDataLength pending requestBody body),
           st\<lparr>issued := issued st @ cmds\<rparr>))"
| "resume dbg (AwaitBodyFinished requestId encodedDataLength pending requestBody body) st =
     (None,
      pushRecord
        \<lparr>rec_id = requestId, rec_url = p_url pending, rec_method = p_method pending,
          rec_status = p_status pending, rec_mimeType = p_mimeType pending,
          rec_resourceType = p_resourceType pending, rec_timeStamp = p_timeStamp pending,
          rec_encodedDataLength = encodedDataLength,
          rec_requestBody = requestBody, rec_body = body\<rparr>
        (st\<lparr>pendingRequests := (pendingRequests st)(requestId := None)\<rparr>))"
| "resume dbg (AwaitRequestBodyFailed requestId pending requestBody) st =
     (None,
      pushRecord
        \<lparr>rec_id = requestId, rec_url = p_url pending, rec_method = p_method pending,
          rec_status = p_status pending, rec_mimeType = p_mimeType pending,
          rec_resourceType = p_resourceType pending, rec_timeStamp = p_timeStamp pending,
          rec_encodedDataLength = 0,
          rec_requestBody = requestBody,
          rec_body = \<lparr>rs_text = None, rs_isBase64 = False, rs_truncated = False,
                       rs_error = Some (createError ''REQUEST_FAILED'' MSG_REQUEST_FAILED
                                          JUndefined)\<rparr>\<rparr>
        (st\<lparr>pendingRequests := (pendingRequests st)(requestId := None)\<rparr>))"

text \<open>A call that nothing interrupts: it is resumed until it ends (at most twice).\<close>

definition uninterrupted :: "debugger \<Rightarrow> task option \<times> engine \<Rightarrow> engine" where
  "uninterrupted dbg r =
     (case r of
        (None, st) \<Rightarrow> st
      | (Some t, st) \<Rightarrow>
          (case resume dbg t st of
             (None, st') \<Rightarrow> st'
           | (Some t', st') \<Rightarrow> snd (resume dbg t' st')))"

definition handleLoadingFinished :: "debugger \<Rightarrow> string \<Rightarrow> real \<Rightarrow> engine \<Rightarrow> engine" where
  "handleLoadingFinished dbg requestId encodedDataLength st =
     uninterrupted dbg (handleLoadingFinished_start dbg requestId encodedDataLength st)"

definition handleLoadingFailed :: "debugger \<Rightarrow> string \<Rightarrow> engine \<Rightarrow> engine" where
  "handleLoadingFailed dbg requestId st =
     uninterrupted dbg (handleLoadingFailed_start dbg requestId st)"

text \<open>
  \<open>handleDebuggerEvent\<close> returns once the handler it started with \<^verbatim>\<open>void\<close> is
  suspended; the result carries that suspended call, if any. \<open>src\<close> is
  \<^verbatim>\<open>source.tabId\<close>.
\<close>

definition handleDebuggerEvent ::
  "debugger \<Rightarrow> real \<Rightarrow> real option \<Rightarrow> string \<Rightarrow> jsval \<Rightarrow> engine \<Rightarrow> task option \<times> engine" where
  "handleDebuggerEvent dbg now src method params st =
     (if \<not> sameTab src (attachedTabId st) then (None, st)
      else if method = EVENT_REQUEST_WILL_BE_SENT then
        (case parseRequestWillBeSent now params of
           None \<Rightarrow> (None, st)
         | Some pending \<Rightarrow>
             (None, st\<lparr>pendingRequests := (pendingRequests st)(p_requestId pending \<mapsto> pending)\<rparr>))
      else if method = EVENT_RESPONSE_RECEIVED then
        (if \<not> isRecord params then (None, st)
         else
           (case asString (getProp params ''requestId'') of
              None \<Rightarrow> (None, st)
            | Some requestId \<Rightarrow>
                if requestId = [] then (None, st)
                else
                  (case pendingRequests st requestId of
                     None \<Rightarrow> (None, st)
                   | Some existing \<Rightarrow>
                       (case applyResponseReceived existing params of
                          None \<Rightarrow> (None, st)
                        | Some updated \<Rightarrow>
                            (None, st\<lparr>pendingRequests :=
                                         (pendingRequests st)(requestId \<mapsto> updated)\<rparr>)))))
      else if method = EVENT_LOADING_FINISHED then
        (case parseLoadingFinished params of
           None \<Rightarrow> (None, st)
         | Some (requestId, encodedDataLength) \<Rightarrow>
             handleLoadingFinished_start dbg requestId encodedDataLength st)
      else if method = EVENT_LOADING_FAILED then
        (case parseLoadingFailed params of
           None \<Rightarrow> (None, st)
         | Some requestId \<Rightarrow> handleLoadingFailed_start dbg requestId st)
      else (None, st))"

text \<open>
  \<open>detachFromTab\<close> and \<open>attachToTab\<close> are modelled as running to their end with no
  other handler in between. The callback of \<^verbatim>\<open>chrome.debugger.detach\<close> resolves
  whatever the browser answers, so \<open>detachFromTab\<close> never rejects and takes no
  \<open>debugger\<close>.
\<close>

definition detachFromTab :: "real \<Rightarrow> engine \<Rightarrow> engine" where
  "detachFromTab tabId st =
     (if attachedTabId st \<noteq> Some tabId then st
      else
        sendStatusUpdate
          (st\<lparr>issued := issued st @ [ChromeDetach tabId],
              attachedTabId := None,
              pendingRequests := Map.empty\<rparr>))"

text \<open>
  The result of \<open>attachToTab\<close> is \<open>Inl cause\<close> when the promise rejects (the attach
  handshake or \<^verbatim>\<open>Network.enable\<close> failed) and \<open>Inr ()\<close> when it resolves.
\<close>

definition attachToTab :: "debugger \<Rightarrow> real \<Rightarrow> engine \<Rightarrow> (jsval + unit) \<times> engine" where
  "attachToTab dbg tabId st =
     (if attachedTabId st = Some tabId then (Inr (), st)
      else
        let st1 = (case attachedTabId st of None \<Rightarrow> st | Some old \<Rightarrow> detachFromTab old st);
            st2 = st1\<lparr>pendingRequests := Map.empty, recordBuffer := []\<rparr>;
            st3 = st2\<lparr>issued := issued st2 @ [ChromeAttach tabId]\<rparr>
        in
        (case dbg (ChromeAttach tabId) of
           Inl e \<Rightarrow> (Inl e, st3)
         | Inr ok \<Rightarrow>
             (case sendDebuggerCommand dbg (Some tabId) ''Network.enable'' None of
                (Inl e, cmds) \<Rightarrow> (Inl e, st3\<lparr>issued := issued st3 @ cmds\<rparr>)
              | (Inr ok', cmds) \<Rightarrow>
                  let st4 = st3\<lparr>issued := issued st3 @ cmds, attachedTabId := Some tabId\<rparr>;
                      st5 = sendStatusUpdate st4
                  in (Inr (),
                      broadcast (RecordsSnapshot (recordBuffer st5) (attachedTabId st5)) st5))))"

definition sendSnapshotToAll :: "engine \<Rightarrow> engine" where
  "sendSnapshotToAll st = fold sendSnapshot (panelPorts st) st"

definition clearRecords :: "engine \<Rightarrow> engine" where
  "clearRecords st = sendSnapshotToAll (st\<lparr>recordBuffer := [], pendingRequests := Map.empty\<rparr>)"

definition handlePanelMessage :: "debugger \<Rightarrow> PanelToBackgroundMessage \<Rightarrow> engine \<Rightarrow> engine" where
  "handlePanelMessage dbg message st =
     (case message of
        DebuggerAttach tabId \<Rightarrow>
          (case attachToTab dbg tabId st of
             (Inl e, st') \<Rightarrow> sendError (createError ''ATTACH_FAILED'' MSG_ATTACH_FAILED e) st'
           | (Inr ok, st') \<Rightarrow> st')
      | DebuggerDetach tabId \<Rightarrow> detachFromTab tabId st
      | DebuggerStatus \<Rightarrow> sendStatusUpdate st
      | RecordsGet \<Rightarrow> sendSnapshotToAll st
      | RecordsClear \<Rightarrow> clearRecords st)"

text \<open>
  \<open>handlePortConnection\<close> with the three listeners it and the module register:
  a message from the port, the port's disconnection, and
  \<^verbatim>\<open>chrome.debugger.onDetach\<close>.
\<close>

definition handlePortConnection :: "string \<Rightarrow> nat \<Rightarrow> engine \<Rightarrow> engine" where
  "handlePortConnection name port st =
     (if name \<noteq> ''panel'' then st
      else
        sendSnapshot port
          (st\<lparr>panelPorts := (if port \<in> set (panelPorts st) then panelPorts st
                              else panelPorts st @ [port])\<rparr>))"

definition handlePortMessage :: "debugger \<Rightarrow> jsval \<Rightarrow> engine \<Rightarrow> engine" where
  "handlePortMessage dbg rawMessage st =
     (case parsePanelMessage rawMessage of
        None \<Rightarrow> st
      | Some message \<Rightarrow> handlePanelMessage dbg message st)"

definition handlePortDisconnect :: "nat \<Rightarrow> engine \<Rightarrow> engine" where
  "handlePortDisconnect port st = st\<lparr>panelPorts := removeAll port (panelPorts st)\<rparr>"

definition handleDebuggerDetached :: "real option \<Rightarrow> engine \<Rightarrow> engine" where
  "handleDebuggerDetached src st =
     (if \<not> sameTab src (attachedTabId st) then st
      else sendStatusUpdate (st\<lparr>attachedTabId := None, pendingRequests := Map.empty\<rparr>))"

section \<open>Panel side: the messages on the wire and their parser\<close>

text \<open>
  The engine builds its messages as object literals and hands them to
  \<^verbatim>\<open>port.postMessage\<close>; the TypeScript types are erased. The functions
  \<open>js_of_...\<close> give the JavaScript value of each typed message: \<^verbatim>\<open>null\<close> for an
  absent text or tab, no \<^verbatim>\<open>error\<close> key in a body without error (the literals of
  the source omit it), and the three keys \<open>createError\<close> always writes. The port is
  taken to deliver the value as it was built.
\<close>

definition js_of_AppError :: "AppError \<Rightarrow> jsval" where
  "js_of_AppError e =
     JObj [(''code'', JStr (err_code e)), (''message'', JStr (err_message e)),
           (''cause'', err_cause e)]"

fun js_of_text :: "string option \<Rightarrow> jsval" where
  "js_of_text None = JNull"
| "js_of_text (Some t) = JStr t"

fun js_of_tab :: "real option \<Rightarrow> jsval" where
  "js_of_tab None = JNull"
| "js_of_tab (Some n) = JNum (Fin n)"

fun js_of_error :: "AppError option \<Rightarrow> (string \<times> jsval) list" where
  "js_of_error None = []"
| "js_of_error (Some e) = [(''error'', js_of_AppError e)]"

definition js_of_RequestBody :: "RequestBody \<Rightarrow> jsval" where
  "js_of_RequestBody b =
     JObj ([(''text'', js_of_text (rq_text b)), (''truncated'', JBool (rq_truncated b))]
           @ js_of_error (rq_error b))"

definition js_of_ResponseBody :: "ResponseBody \<Rightarrow> jsval" where
  "js_of_ResponseBody b =
     JObj ([(''text'', js_of_text (rs_text b)), (''isBase64'', JBool (rs_isBase64 b)),
            (''truncated'', JBool (rs_truncated b))]
           @ js_of_error (rs_error b))"

definition js_of_ResponseRecord :: "ResponseRecord \<Rightarrow> jsval" where
  "js_of_ResponseRecord r =
     JObj [(''id'', JStr (rec_id r)), (''url'', JStr (rec_url r)),
           (''method'', JStr (rec_method r)), (''status'', JNum (Fin (rec_status r))),
           (''mimeType'', JStr (rec_mimeType r)),
           (''resourceType'', JStr (rec_resourceType r)),
           (''timeStamp'', JNum (Fin (rec_timeStamp r))),
           (''encodedDataLength'', JNum (Fin (rec_encodedDataLength r))),
           (''requestBody'', js_of_RequestBody (rec_requestBody r)),
           (''body'', js_of_ResponseBody (rec_body r))]"

fun js_of_message :: "BackgroundToPanelMessage \<Rightarrow> jsval" where
  "js_of_message (StatusUpdate tab) =
     JObj [(''type'', JStr ''status.update''), (''attachedTabId'', js_of_tab tab)]"
| "js_of_message (RecordsSnapshot records tab) =
     JObj [(''type'', JStr ''records.snapshot''),
           (''records'', JArr (map js_of_ResponseRecord records)),
           (''attachedTabId'', js_of_tab tab)]"
| "js_of_message (RecordsAdded r) =
     JObj [(''type'', JStr ''records.added''), (''record'', js_of_ResponseRecord r)]"
| "js_of_message (ErrorMessage e) =
     JObj [(''type'', JStr ''error''), (''error'', js_of_AppError e)]"

text \<open>The parsers of the panel (\<^verbatim>\<open>parseAppError\<close> to \<^verbatim>\<open>parseBackgroundMessage\<close>).\<close>

definition parseAppError :: "jsval \<Rightarrow> AppError option" where
  "parseAppError v =
     (if \<not> isRecord v then None
      else
        (case asString (getProp v ''code'') of
           None \<Rightarrow> None
         | Some code \<Rightarrow>
             (case asString (getProp v ''message'') of
                None \<Rightarrow> None
              | Some message \<Rightarrow>
                  if code = [] then None
                  else if message = [] then None
                  else Some \<lparr>err_code = code, err_message = message,
                             err_cause = (if hasProp v ''cause'' then getProp v ''cause''
                                          else JUndefined)\<rparr>)))"

definition parseResponseBody :: "jsval \<Rightarrow> ResponseBody option" where
  "parseResponseBody v =
     (if \<not> isRecord v then None
      else
        let textValue = getProp v ''text'';
            text = (if textValue = JNull then None else asString textValue)
        in
        if textValue \<noteq> JNull \<and> text = None then None
        else
          (case asBoolean (getProp v ''isBase64'') of
             None \<Rightarrow> None
           | Some isBase64 \<Rightarrow>
               (case asBoolean (getProp v ''truncated'') of
                  None \<Rightarrow> None
                | Some truncated \<Rightarrow>
                    if getProp v ''error'' \<noteq> JUndefined then
                      (case parseAppError (getProp v ''error'') of
                         None \<Rightarrow> None
                       | Some parsed \<Rightarrow>
                           Some \<lparr>rs_text = text, rs_isBase64 = isBase64,
                                 rs_truncated = truncated, rs_error = Some parsed\<rparr>)
                    else Some \<lparr>rs_text = text, rs_isBase64 = isBase64,
                               rs_truncated = truncated, rs_error = None\<rparr>)))"

definition parseRequestBody :: "jsval \<Rightarrow> RequestBody option" where
  "parseRequestBody v =
     (if \<not> isRecord v then None
      else
        let textValue = getProp v ''text'';
            text = (if textValue = JNull then None else asString textValue)
        in
        if textValue \<noteq> JNull \<and> text = None then None
        else
          (case asBoolean (getProp v ''truncated'') of
             None \<Rightarrow> None
           | Some truncated \<Rightarrow>
               if getProp v ''error'' \<noteq> JUndefined then
                 (case parseAppError (getProp v ''error'') of
                    None \<Rightarrow> None
                  | Some parsed \<Rightarrow>
                      Some \<lparr>rq_text = text, rq_truncated = truncated, rq_error = Some parsed\<rparr>)
               else Some \<lparr>rq_text = text, rq_truncated = truncated, rq_error = None\<rparr>))"

text \<open>
  \<^verbatim>\<open>!s\<close> on a \<^verbatim>\<open>string | null\<close>: true for \<^verbatim>\<open>null\<close> and for the empty string.
\<close>

fun falsy :: "string option \<Rightarrow> bool" where
  "falsy None = True"
| "falsy (Some s) = (s = [])"

text \<open>
  The one test of \<open>parseResponseRecord\<close> on its eight basic fields rejects a
  \<^verbatim>\<open>null\<close> number and a \<^verbatim>\<open>null\<close> or empty string; past it every field is there.
\<close>

definition parseResponseRecord :: "jsval \<Rightarrow> ResponseRecord option" where
  "parseResponseRecord v =
     (if \<not> isRecord v then None
      else
        let id = asString (getProp v ''id'');
            url = asString (getProp v ''url'');
            method = asString (getProp v ''method'');
            status = asNumber (getProp v ''status'');
            mimeType = asString (getProp v ''mimeType'');
            resourceType = asString (getProp v ''resourceType'');
            timeStamp = asNumber (getProp v ''timeStamp'');
            encodedDataLength = asNumber (getProp v ''encodedDataLength'')
        in
        if falsy id then None
        else if falsy url then None
        else if falsy method then None
        else if status = None then None
        else if falsy mimeType then None
        else if falsy resourceType then None
        else if timeStamp = None then None
        else if encodedDataLength = None then None
        else
          (case (id, url, method, status, mimeType, resourceType, timeStamp, encodedDataLength) of
             (Some id', Some url', Some method', Some status', Some mimeType',
              Some resourceType', Some timeStamp', Some encodedDataLength') \<Rightarrow>
               (case parseRequestBody (getProp v ''requestBody'') of
                  None \<Rightarrow> None
                | Some requestBody \<Rightarrow>
                    (case parseResponseBody (getProp v ''body'') of
                       None \<Rightarrow> None
                     | Some body \<Rightarrow>
                         Some \<lparr>rec_id = id', rec_url = url', rec_method = method',
                               rec_status = status', rec_mimeType = mimeType',
                               rec_resourceType = resourceType',
                               rec_timeStamp = timeStamp',
                               rec_encodedDataLength = encodedDataLength',
                               rec_requestBody = requestBody, rec_body = body\<rparr>))
           | _ \<Rightarrow> None))"

text \<open>
  The loop over \<^verbatim>\<open>records\<close> in \<open>parseBackgroundMessage\<close>: the first record that
  does not parse makes the whole snapshot \<^verbatim>\<open>null\<close>.
\<close>

fun parseRecords :: "ResponseRecord list \<Rightarrow> jsval list \<Rightarrow> ResponseRecord list option" where
  "parseRecords parsedRecords [] = Some parsedRecords"
| "parseRecords parsedRecords (r # rs) =
     (case parseResponseRecord r of
        None \<Rightarrow> None
      | Some parsed \<Rightarrow> parseRecords (parsedRecords @ [parsed]) rs)"

definition parseBackgroundMessage :: "jsval \<Rightarrow> BackgroundToPanelMessage option" where
  "parseBackgroundMessage v =
     (if \<not> isRecord v then None
      else
        (case asString (getProp v ''type'') of
           None \<Rightarrow> None
         | Some messageType \<Rightarrow>
             if messageType = [] then None
             else if messageType = ''status.update'' then
               (let tab = asNumber (getProp v ''attachedTabId'') in
                if tab = None \<and> getProp v ''attachedTabId'' \<noteq> JNull then None
                else Some (StatusUpdate tab))
             else if messageType = ''records.snapshot'' then
               (case getProp v ''records'' of
                  JArr records \<Rightarrow>
                    (let tab = asNumber (getProp v ''attachedTabId'') in
                     if tab = None \<and> getProp v ''attachedTabId'' \<noteq> JNull then None
                     else
                       (case parseRecords [] records of
                          None \<Rightarrow> None
                        | Some parsedRecords \<Rightarrow> Some (RecordsSnapshot parsedRecords tab)))
                | _ \<Rightarrow> None)
             else if messageType = ''records.added'' then
               (case parseResponseRecord (getProp v ''record'') of
                  None \<Rightarrow> None
                | Some parsedRecord \<Rightarrow> Some (RecordsAdded parsedRecord))
             else if messageType = ''error'' then
               (case parseAppError (getProp v ''error'') of
                  None \<Rightarrow> None
                | Some parsedError \<Rightarrow> Some (ErrorMessage parsedError))
             else None))"

text \<open>
  What the panel's parser asks of a message beyond its types: an error has a non-empty
  code and message, and a record has a non-empty id, URL, method, MIME type and
  resource type.
\<close>

definition wellFormedError :: "AppError option \<Rightarrow> bool" where
  "wellFormedError e =
     (case e of None \<Rightarrow> True | Some x \<Rightarrow> err_code x \<noteq> [] \<and> err_message x \<noteq> [])"

definition wellFormedRecord :: "ResponseRecord \<Rightarrow> bool" where
  "wellFormedRecord r =
     (rec_id r \<noteq> [] \<and> rec_url r \<noteq> [] \<and> rec_method r \<noteq> []
      \<and> rec_mimeType r \<noteq> [] \<and> rec_resourceType r \<noteq> []
      \<and> wellFormedError (rq_error (rec_requestBody r))
      \<and> wellFormedError (rs_error (rec_body r)))"

section \<open>A sample session\<close>

text \<open>
  The concrete inputs the closed theorems below are evaluated at: an engine attached to
  tab 7 with one panel port, the request \<open>r1\<close> announced on it, the events of that
  request, and two browsers, one answering every call with an empty result and one
  failing every call.
\<close>

definition idle_engine :: engine where
  "idle_engine =
     \<lparr>attachedTabId = Some 7, panelPorts = [1], pendingRequests = Map.empty,
      recordBuffer = [], posted = [], issued = []\<rparr>"

definition sample_request :: jsval where
  "sample_request =
     JObj [(''requestId'', JStr ''r1''),
           (''request'', JObj [(''url'', JStr ''https://x/y''), (''method'', JStr ''GET'')]),
           (''type'', JStr ''XHR'')]"

definition sample_pending :: PendingRequest where
  "sample_pending =
     \<lparr>p_requestId = ''r1'', p_url = ''https://x/y'', p_method = ''GET'',
      p_hasPostData = False, p_requestPostData = None, p_status = 0, p_mimeType = [],
      p_resourceType = ''XHR'', p_timeStamp = 1000\<rparr>"

definition sample_engine :: engine where
  "sample_engine = idle_engine\<lparr>pendingRequests := [''r1'' \<mapsto> sample_pending]\<rparr>"

definition sample_response :: jsval where
  "sample_response =
     JObj [(''requestId'', JStr ''r1''),
           (''response'', JObj [(''status'', JNum (Fin 200)),
                                (''mimeType'', JStr ''application/json'')]),
           (''type'', JStr ''Fetch'')]"

definition sample_finished :: jsval where
  "sample_finished =
     JObj [(''requestId'', JStr ''r1''), (''encodedDataLength'', JNum (Fin 10))]"

definition sample_failed :: jsval where
  "sample_failed = JObj [(''requestId'', JStr ''r1'')]"

definition empty_debugger :: debugger where
  "empty_debugger = (\<lambda>c. Inr (JObj []))"

definition failing_debugger :: debugger where
  "failing_debugger = (\<lambda>c. Inl (JObj [(''message'', JStr ''Debugger is not attached'')]))"

definition failed_record :: ResponseRecord where
  "failed_record =
     \<lparr>rec_id = ''r1'', rec_url = ''https://x/y'', rec_method = ''GET'', rec_status = 0,
      rec_mimeType = [], rec_resourceType = ''XHR'', rec_timeStamp = 1000,
      rec_encodedDataLength = 0,
      rec_requestBody = \<lparr>rq_text = None, rq_truncated = False, rq_error = None\<rparr>,
      rec_body = \<lparr>rs_text = None, rs_isBase64 = False, rs_truncated = False,
                   rs_error = Some \<lparr>err_code = ''REQUEST_FAILED'',
                                     err_message = MSG_REQUEST_FAILED,
                                     err_cause = JUndefined\<rparr>\<rparr>\<rparr>"

definition stale_record :: ResponseRecord where
  "stale_record =
     \<lparr>rec_id = ''r1'', rec_url = ''https://x/y'', rec_method = ''GET'', rec_status = 0,
      rec_mimeType = [], rec_resourceType = ''XHR'', rec_timeStamp = 1000,
      rec_encodedDataLength = 10,
      rec_requestBody = \<lparr>rq_text = None, rq_truncated = False, rq_error = None\<rparr>,
      rec_body = \<lparr>rs_text = None, rs_isBase64 = False, rs_truncated = False,
                   rs_error = Some \<lparr>err_code = ''BODY_READ_FAILED'',
                                     err_message = MSG_BODY_READ_FAILED,
                                     err_cause = JObj [(''message'',
                                        JStr ''Debugger is not attached'')]\<rparr>\<rparr>\<rparr>"

text \<open>
  A second request, \<open>r2\<close>, which announced post-data without carrying it inline, so
  that its body has to be read from the browser.
\<close>

definition post_pending :: PendingRequest where
  "post_pending =
     \<lparr>p_requestId = ''r2'', p_url = ''https://x/login'', p_method = ''POST'',
      p_hasPostData = True, p_requestPostData = None, p_status = 0, p_mimeType = [],
      p_resourceType = ''Fetch'', p_timeStamp = 1200\<rparr>"

definition post_engine :: engine where
  "post_engine = idle_engine\<lparr>pendingRequests := [''r2'' \<mapsto> post_pending]\<rparr>"

definition post_failed :: jsval where
  "post_failed = JObj [(''requestId'', JStr ''r2'')]"

definition post_failed_record :: ResponseRecord where
  "post_failed_record =
     \<lparr>rec_id = ''r2'', rec_url = ''https://x/login'', rec_method = ''POST'', rec_status = 0,
      rec_mimeType = [], rec_resourceType = ''Fetch'', rec_timeStamp = 1200,
      rec_encodedDataLength = 0,
      rec_requestBody =
        \<lparr>rq_text = None, rq_truncated = False,
         rq_error = Some \<lparr>err_code = ''REQUEST_BODY_READ_FAILED'',
                           err_message = MSG_REQUEST_BODY_READ_FAILED,
                           err_cause = JObj [(''message'',
                              JStr ''Debugger is not attached'')]\<rparr>\<rparr>,
      rec_body = \<lparr>rs_text = None, rs_isBase64 = False, rs_truncated = False,
                   rs_error = Some \<lparr>err_code = ''REQUEST_FAILED'',
                                     err_message = MSG_REQUEST_FAILED,
                                     err_cause = JUndefined\<rparr>\<rparr>\<rparr>"

text \<open>
  Schedules. \<open>proceed\<close> lets a suspended call go on to its next \<^verbatim>\<open>await\<close> or to
  its end (the browser has answered the call it was waiting for); \<open>meanwhile f\<close>
  lets another handler \<open>f\<close> run to its end while the call stays suspended.
\<close>

fun proceed :: "debugger \<Rightarrow> task option \<times> engine \<Rightarrow> task option \<times> engine" where
  "proceed dbg (None, st) = (None, st)"
| "proceed dbg (Some t, st) = resume dbg t st"

definition meanwhile :: "(engine \<Rightarrow> engine) \<Rightarrow> task option \<times> engine \<Rightarrow> task option \<times> engine" where
  "meanwhile f r = (fst r, f (snd r))"

section \<open>The record store\<close>

lemma MAX_RECORDS_pos: "0 < MAX_RECORDS"
  by (simp add: MAX_RECORDS_def)

lemma recordBuffer_pushRecord:
  "recordBuffer (pushRecord r st) =
     (if length (recordBuffer st) \<ge> MAX_RECORDS then tl (recordBuffer st)
      else recordBuffer st) @ [r]"
  by (simp add: pushRecord_def broadcast_def)

lemma pushRecord_bounded:
  "length (recordBuffer st) \<le> MAX_RECORDS \<Longrightarrow>
   length (recordBuffer (pushRecord r st)) \<le> MAX_RECORDS"
  using MAX_RECORDS_pos by (auto simp: recordBuffer_pushRecord)

lemma pushRecord_suffix:
  assumes "length (recordBuffer st) \<le> MAX_RECORDS"
  shows "recordBuffer (pushRecord r st) =
         drop (length (recordBuffer st @ [r]) - MAX_RECORDS) (recordBuffer st @ [r])"
proof (cases "length (recordBuffer st) \<ge> MAX_RECORDS")
  case True
  with assms have len: "length (recordBuffer st) = MAX_RECORDS" by simp
  with MAX_RECORDS_pos obtain x xs where buf: "recordBuffer st = x # xs"
    by (cases "recordBuffer st") auto
  from len buf show ?thesis
    by (simp add: recordBuffer_pushRecord)
next
  case False
  then show ?thesis
    by (simp add: recordBuffer_pushRecord)
qed

lemma fold_pushRecord_suffix:
  "length (recordBuffer st) \<le> MAX_RECORDS \<Longrightarrow>
   recordBuffer (fold pushRecord rs st) =
     drop (length (recordBuffer st @ rs) - MAX_RECORDS) (recordBuffer st @ rs)"
proof (induction rs arbitrary: st)
  case Nil
  then show ?case by simp
next
  case (Cons r rs)
  let ?b = "recordBuffer st"
  have bounded: "length (recordBuffer (pushRecord r st)) \<le> MAX_RECORDS"
    using Cons.prems by (rule pushRecord_bounded)
  have "recordBuffer (fold pushRecord (r # rs) st) =
        drop (length (recordBuffer (pushRecord r st) @ rs) - MAX_RECORDS)
          (recordBuffer (pushRecord r st) @ rs)"
    using Cons.IH [OF bounded] by simp
  also have "\<dots> = drop (length (?b @ r # rs) - MAX_RECORDS) (?b @ r # rs)"
  proof (cases "length ?b \<ge> MAX_RECORDS")
    case True
    with Cons.prems have len: "length ?b = MAX_RECORDS" by simp
    with MAX_RECORDS_pos obtain x xs where buf: "?b = x # xs"
      by (cases ?b) auto
    from len buf show ?thesis
      by (simp add: recordBuffer_pushRecord Suc_diff_le)
  next
    case False
    then show ?thesis
      by (simp add: recordBuffer_pushRecord)
  qed
  finally show ?case .
qed

text \<open>
  C2. Starting from the empty store, after pushing the records \<open>rs\<close> one by one the
  store holds \<open>min (length rs) MAX_RECORDS\<close> records, namely the last \<open>MAX_RECORDS\<close>
  of \<open>rs\<close> in the order they were pushed (oldest first); and one more push drops
  exactly one record, the oldest, when the store is full, and none otherwise.
\<close>

theorem record_store_keeps_most_recent:
  "length (recordBuffer (fold pushRecord rs (st\<lparr>recordBuffer := []\<rparr>)))
     = min (length rs) MAX_RECORDS
   \<and> recordBuffer (fold pushRecord rs (st\<lparr>recordBuffer := []\<rparr>))
     = drop (length rs - MAX_RECORDS) rs
   \<and> recordBuffer (pushRecord r (fold pushRecord rs (st\<lparr>recordBuffer := []\<rparr>)))
     = drop (if length rs \<ge> MAX_RECORDS then 1 else 0)
         (recordBuffer (fold pushRecord rs (st\<lparr>recordBuffer := []\<rparr>))) @ [r]"
proof -
  let ?s = "fold pushRecord rs (st\<lparr>recordBuffer := []\<rparr>)"
  have content: "recordBuffer ?s = drop (length rs - MAX_RECORDS) rs"
    using fold_pushRecord_suffix [of "st\<lparr>recordBuffer := []\<rparr>" rs] by simp
  have len: "length (recordBuffer ?s) = min (length rs) MAX_RECORDS"
    unfolding content by auto
  have full: "(length (recordBuffer ?s) \<ge> MAX_RECORDS) = (length rs \<ge> MAX_RECORDS)"
    unfolding len by auto
  have step: "recordBuffer (pushRecord r ?s)
        = drop (if length rs \<ge> MAX_RECORDS then 1 else 0) (recordBuffer ?s) @ [r]"
    unfolding recordBuffer_pushRecord full by (simp add: drop_Suc)
  from len content step show ?thesis by blast
qed

section \<open>The body fetcher\<close>

text \<open>
  C3. When the declared \<open>encodedDataLength\<close> exceeds \<open>MAX_BODY_BYTES\<close>,
  \<open>buildResponseBody\<close> returns the body with no text, \<open>truncated\<close> set and the error
  \<open>BODY_TOO_LARGE\<close>, and it makes no call on the debugger (the list of calls is empty);
  accordingly \<open>handleLoadingFinished\<close>, resumed at its response body, leaves the engine
  and its log of calls as they were.
\<close>

theorem buildResponseBody_too_large:
  assumes "encodedDataLength > MAX_BODY_BYTES"
  shows "buildResponseBody dbg tabId requestId encodedDataLength =
           (\<lparr>rs_text = None, rs_isBase64 = False, rs_truncated = True,
             rs_error = Some \<lparr>err_code = ''BODY_TOO_LARGE'', err_message = MSG_BODY_TOO_LARGE,
                               err_cause = JUndefined\<rparr>\<rparr>, [])
         \<and> resume dbg (AwaitRequestBodyFinished requestId encodedDataLength pending requestBody) st =
           (Some (AwaitBodyFinished requestId encodedDataLength pending requestBody
                    \<lparr>rs_text = None, rs_isBase64 = False, rs_truncated = True,
                      rs_error = Some \<lparr>err_code = ''BODY_TOO_LARGE'',
                                        err_message = MSG_BODY_TOO_LARGE,
                                        err_cause = JUndefined\<rparr>\<rparr>), st)"
  using assms by (simp add: buildResponseBody_def createError_def)

theorem buildResponseBody_too_large_witness:
  "(500000::real) > MAX_BODY_BYTES
   \<and> buildResponseBody failing_debugger (Some 7) ''r1'' 500000 =
       (\<lparr>rs_text = None, rs_isBase64 = False, rs_truncated = True,
         rs_error = Some \<lparr>err_code = ''BODY_TOO_LARGE'', err_message = MSG_BODY_TOO_LARGE,
                           err_cause = JUndefined\<rparr>\<rparr>, [])
   \<and> issued (snd (resume failing_debugger
        (AwaitRequestBodyFinished ''r1'' 500000 sample_pending
           \<lparr>rq_text = None, rq_truncated = False, rq_error = None\<rparr>) sample_engine)) = []"
proof -
  have big: "(500000::real) > MAX_BODY_BYTES"
    by (simp add: MAX_BODY_BYTES_def)
  show ?thesis
    using big buildResponseBody_too_large [OF big, of failing_debugger "Some 7" "''r1''"
        sample_pending "\<lparr>rq_text = None, rq_truncated = False, rq_error = None\<rparr>" sample_engine]
    by (simp add: sample_engine_def idle_engine_def)
qed

text \<open>
  C4. For a request with \<open>hasPostData = false\<close> and no inline post-data
  (\<open>requestPostData = null\<close>), \<open>buildRequestBody\<close> returns the body with no text,
  \<open>truncated = false\<close> and no error, and makes no call on the debugger, whatever the
  browser, the tab and the request are; for a pending request of that kind both
  completion handlers reach their first \<^verbatim>\<open>await\<close> with that body and with the
  engine, its log of calls included, unchanged.
\<close>

theorem buildRequestBody_no_post_data:
  "buildRequestBody dbg tabId requestId False None =
     (\<lparr>rq_text = None, rq_truncated = False, rq_error = None\<rparr>, [])
   \<and> (attachedTabId st = Some tab \<and> pendingRequests st requestId = Some pending
        \<and> \<not> p_hasPostData pending \<and> p_requestPostData pending = None \<longrightarrow>
      handleLoadingFinished_start dbg requestId encodedDataLength st =
        (Some (AwaitRequestBodyFinished requestId encodedDataLength pending
                 \<lparr>rq_text = None, rq_truncated = False, rq_error = None\<rparr>), st)
      \<and> handleLoadingFailed_start dbg requestId st =
        (Some (AwaitRequestBodyFailed requestId pending
                 \<lparr>rq_text = None, rq_truncated = False, rq_error = None\<rparr>), st))"
proof -
  have direct: "buildRequestBody d t r False None =
      (\<lparr>rq_text = None, rq_truncated = False, rq_error = None\<rparr>, [])" for d t r
    by (simp add: buildRequestBody_def)
  have handlers:
    "handleLoadingFinished_start dbg requestId encodedDataLength st =
        (Some (AwaitRequestBodyFinished requestId encodedDataLength pending
                 \<lparr>rq_text = None, rq_truncated = False, rq_error = None\<rparr>), st)
     \<and> handleLoadingFailed_start dbg requestId st =
        (Some (AwaitRequestBodyFailed requestId pending
                 \<lparr>rq_text = None, rq_truncated = False, rq_error = None\<rparr>), st)"
    if "attachedTabId st = Some tab" "pendingRequests st requestId = Some pending"
      "\<not> p_hasPostData pending" "p_requestPostData pending = None"
    using that
    by (simp add: handleLoadingFinished_start_def handleLoadingFailed_start_def direct)
  from direct handlers show ?thesis by blast
qed

theorem buildRequestBody_no_post_data_witness:
  "attachedTabId sample_engine = Some 7
   \<and> pendingRequests sample_engine ''r1'' = Some sample_pending
   \<and> \<not> p_hasPostData sample_pending \<and> p_requestPostData sample_pending = None
   \<and> buildRequestBody failing_debugger (Some 7) ''r1'' False None =
       (\<lparr>rq_text = None, rq_truncated = False, rq_error = None\<rparr>, [])
   \<and> issued (snd (handleLoadingFinished_start failing_debugger ''r1'' 10 sample_engine)) = []
   \<and> issued (snd (handleLoadingFailed_start failing_debugger ''r1'' sample_engine)) = []"
proof -
  have h: "attachedTabId sample_engine = Some 7
           \<and> pendingRequests sample_engine ''r1'' = Some sample_pending
           \<and> \<not> p_hasPostData sample_pending \<and> p_requestPostData sample_pending = None"
    by (simp add: sample_engine_def idle_engine_def sample_pending_def)
  have none: "issued sample_engine = []"
    by (simp add: sample_engine_def idle_engine_def)
  show ?thesis
    using h buildRequestBody_no_post_data
      [of failing_debugger "Some 7" "''r1''" sample_engine 7 sample_pending 10]
    by (simp add: none)
qed

section \<open>The session controller\<close>

lemma attachToTab_resolved:
  "fst (attachToTab dbg tabId st) = Inr () \<Longrightarrow>
   attachedTabId (snd (attachToTab dbg tabId st)) = Some tabId"
  by (auto simp: attachToTab_def sendDebuggerCommand_def sendStatusUpdate_def broadcast_def
      Let_def split: sum.splits)

text \<open>
  C5. \<open>attachToTab t\<close> on an engine already attached to \<open>t\<close> resolves and returns
  the engine as it was: the attached tab, the pending requests, the record buffer, the
  messages posted and the calls made on the debugger are all unchanged, and the panel
  command \<open>debugger.attach\<close> posts no error either. Hence a second \<open>attachToTab t\<close>
  right after one that resolved gives, whatever the browser answers, the result and
  the engine of the first.
\<close>

theorem attachToTab_same_tab_noop:
  "(attachedTabId st = Some tabId \<longrightarrow>
      attachToTab dbg tabId st = (Inr (), st)
      \<and> handlePanelMessage dbg (DebuggerAttach tabId) st = st)
   \<and> (fst (attachToTab dbg tabId st) = Inr () \<longrightarrow>
      attachToTab dbg' tabId (snd (attachToTab dbg tabId st)) = attachToTab dbg tabId st)"
proof -
  have noop: "attachToTab d tabId s = (Inr (), s)" if "attachedTabId s = Some tabId" for d s
    using that by (simp add: attachToTab_def)
  have msg: "handlePanelMessage dbg (DebuggerAttach tabId) st = st"
    if "attachedTabId st = Some tabId"
    using noop [OF that] by (simp add: handlePanelMessage_def)
  have twice: "attachToTab dbg' tabId (snd (attachToTab dbg tabId st)) = attachToTab dbg tabId st"
    if ok: "fst (attachToTab dbg tabId st) = Inr ()"
  proof -
    have "attachToTab dbg' tabId (snd (attachToTab dbg tabId st))
          = (Inr (), snd (attachToTab dbg tabId st))"
      by (rule noop) (rule attachToTab_resolved [OF ok])
    also have "\<dots> = attachToTab dbg tabId st"
      using ok by (simp add: prod_eq_iff)
    finally show ?thesis .
  qed
  from noop msg twice show ?thesis by blast
qed

theorem attachToTab_same_tab_noop_witness:
  "attachedTabId sample_engine = Some 7
   \<and> attachToTab failing_debugger 7 sample_engine = (Inr (), sample_engine)
   \<and> handlePanelMessage failing_debugger (DebuggerAttach 7) sample_engine = sample_engine
   \<and> fst (attachToTab empty_debugger 8 sample_engine) = Inr ()
   \<and> attachToTab failing_debugger 8 (snd (attachToTab empty_debugger 8 sample_engine))
       = attachToTab empty_debugger 8 sample_engine"
proof -
  have attached: "attachedTabId sample_engine = Some 7"
    by (simp add: sample_engine_def idle_engine_def)
  have resolved: "fst (attachToTab empty_debugger 8 sample_engine) = Inr ()"
    by (simp add: attachToTab_def sample_engine_def idle_engine_def empty_debugger_def
        sendDebuggerCommand_def detachFromTab_def Let_def)
  show ?thesis
    using attached resolved
      attachToTab_same_tab_noop [of sample_engine 7 failing_debugger]
      attachToTab_same_tab_noop [of sample_engine 8 empty_debugger failing_debugger]
    by simp
qed

text \<open>
  C6. \<open>detachFromTab t\<close> on an engine that is not attached to \<open>t\<close> (attached to
  another tab or to none) returns the engine as it was, with nothing posted and no
  call made; so does the panel command \<open>debugger.detach\<close>.
\<close>

theorem detachFromTab_not_attached:
  assumes "attachedTabId st \<noteq> Some tabId"
  shows "detachFromTab tabId st = st
         \<and> handlePanelMessage dbg (DebuggerDetach tabId) st = st"
  using assms by (simp add: detachFromTab_def handlePanelMessage_def)

theorem detachFromTab_not_attached_witness:
  "attachedTabId sample_engine \<noteq> Some 8
   \<and> detachFromTab 8 sample_engine = sample_engine
   \<and> handlePanelMessage empty_debugger (DebuggerDetach 8) sample_engine = sample_engine"
proof -
  have other: "attachedTabId sample_engine \<noteq> Some 8"
    by (simp add: sample_engine_def idle_engine_def)
  show ?thesis
    using other detachFromTab_not_attached [OF other, of empty_debugger] by simp
qed

section \<open>The event router\<close>

text \<open>
  C7, as stated, fails: a \<open>responseReceived\<close> event also writes its own resource type
  into the pending request. Request \<open>r1\<close> was announced as \<open>XHR\<close>; after the event
  \<open>sample_response\<close>, whose type is \<open>Fetch\<close>, its pending request says \<open>Fetch\<close>.
\<close>

theorem responseReceived_resourceType_counterexample:
  "map_option p_resourceType (pendingRequests sample_engine ''r1'') = Some ''XHR''
   \<and> map_option p_resourceType
       (pendingRequests
          (snd (handleDebuggerEvent empty_debugger 1500 (Some 7) EVENT_RESPONSE_RECEIVED
                  sample_response sample_engine)) ''r1'') = Some ''Fetch''"
  by (simp add: sample_engine_def idle_engine_def sample_pending_def sample_response_def
      handleDebuggerEvent_def EVENT_REQUEST_WILL_BE_SENT_def EVENT_RESPONSE_RECEIVED_def
      applyResponseReceived_def isAllowedResourceType_def ALLOWED_RESOURCE_TYPES_def)

text \<open>
  C7, amended. For an event of the attached tab whose \<open>requestId\<close> has a pending
  request, whose response carries a finite status and a non-empty MIME type, and whose
  type is absent or on the allow-list: the event stores the status, the MIME type and,
  when it carries a type, that type as the resource type; the request id, the URL, the
  method, \<open>hasPostData\<close>, the inline post-data and the time stamp of the pending
  request stay as they were, and nothing else in the engine changes.
\<close>

theorem responseReceived_merges_status_mimeType_resourceType:
  assumes "sameTab src (attachedTabId st)"
    and "isRecord params"
    and "asString (getProp params ''requestId'') = Some requestId"
    and "requestId \<noteq> []"
    and "pendingRequests st requestId = Some pending"
    and "isRecord (getProp params ''response'')"
    and "asNumber (getProp (getProp params ''response'') ''status'') = Some status"
    and "asString (getProp (getProp params ''response'') ''mimeType'') = Some mimeType"
    and "mimeType \<noteq> []"
    and "case asString (getProp params ''type'') of
           None \<Rightarrow> True | Some resourceType \<Rightarrow> isAllowedResourceType resourceType"
  shows "handleDebuggerEvent dbg now src EVENT_RESPONSE_RECEIVED params st =
           (None,
            st\<lparr>pendingRequests := (pendingRequests st)(requestId \<mapsto>
                 \<lparr>p_requestId = p_requestId pending, p_url = p_url pending,
                  p_method = p_method pending, p_hasPostData = p_hasPostData pending,
                  p_requestPostData = p_requestPostData pending,
                  p_status = status, p_mimeType = mimeType,
                  p_resourceType = (case asString (getProp params ''type'') of
                                      None \<Rightarrow> p_resourceType pending
                                    | Some resourceType \<Rightarrow> resourceType),
                  p_timeStamp = p_timeStamp pending\<rparr>)\<rparr>)"
  using assms
  by (cases pending)
     (auto simp: handleDebuggerEvent_def EVENT_REQUEST_WILL_BE_SENT_def
        EVENT_RESPONSE_RECEIVED_def applyResponseReceived_def split: option.splits)

theorem responseReceived_merges_status_mimeType_resourceType_witness:
  "sameTab (Some 7) (attachedTabId sample_engine)
   \<and> isRecord sample_response
   \<and> asString (getProp sample_response ''requestId'') = Some ''r1''
   \<and> pendingRequests sample_engine ''r1'' = Some sample_pending
   \<and> isRecord (getProp sample_response ''response'')
   \<and> asNumber (getProp (getProp sample_response ''response'') ''status'') = Some 200
   \<and> asString (getProp (getProp sample_response ''response'') ''mimeType'')
       = Some ''application/json''
   \<and> asString (getProp sample_response ''type'') = Some ''Fetch''
   \<and> isAllowedResourceType ''Fetch''
   \<and> handleDebuggerEvent empty_debugger 1500 (Some 7) EVENT_RESPONSE_RECEIVED
        sample_response sample_engine =
       (None,
        sample_engine\<lparr>pendingRequests := [''r1'' \<mapsto>
           \<lparr>p_requestId = ''r1'', p_url = ''https://x/y'', p_method = ''GET'',
            p_hasPostData = False, p_requestPostData = None, p_status = 200,
            p_mimeType = ''application/json'', p_resourceType = ''Fetch'',
            p_timeStamp = 1000\<rparr>]\<rparr>)"
proof -
  have h1: "sameTab (Some 7) (attachedTabId sample_engine)"
    by (simp add: sample_engine_def idle_engine_def)
  have h2: "isRecord sample_response"
    by (simp add: sample_response_def)
  have h3: "asString (getProp sample_response ''requestId'') = Some ''r1''"
    by (simp add: sample_response_def)
  have h4: "''r1'' \<noteq> []" by simp
  have h5: "pendingRequests sample_engine ''r1'' = Some sample_pending"
    by (simp add: sample_engine_def idle_engine_def)
  have h6: "isRecord (getProp sample_response ''response'')"
    by (simp add: sample_response_def)
  have h7: "asNumber (getProp (getProp sample_response ''response'') ''status'') = Some 200"
    by (simp add: sample_response_def)
  have h8: "asString (getProp (getProp sample_response ''response'') ''mimeType'')
              = Some ''application/json''"
    by (simp add: sample_response_def)
  have h9: "''application/json'' \<noteq> []" by simp
  have ty: "asString (getProp sample_response ''type'') = Some ''Fetch''"
    by (simp add: sample_response_def)
  have allowed: "isAllowedResourceType ''Fetch''"
    by (simp add: isAllowedResourceType_def ALLOWED_RESOURCE_TYPES_def)
  have h10: "case asString (getProp sample_response ''type'') of
               None \<Rightarrow> True | Some resourceType \<Rightarrow> isAllowedResourceType resourceType"
    by (simp add: ty allowed)
  have upd: "(pendingRequests sample_engine)(''r1'' \<mapsto> x) = [''r1'' \<mapsto> x]" for x
    by (simp add: sample_engine_def idle_engine_def)
  show ?thesis
    using h1 h2 h3 h5 h6 h7 h8 ty allowed
      responseReceived_merges_status_mimeType_resourceType
        [OF h1 h2 h3 h4 h5 h6 h7 h8 h9 h10, of empty_debugger 1500]
    by (simp add: upd sample_pending_def)
qed

text \<open>
  C8, as stated, fails. \<open>handleLoadingFinished\<close> looks the request up before its
  first \<^verbatim>\<open>await\<close> and not again. Here the \<open>loadingFinished\<close> event of \<open>r1\<close> starts
  the handler, which goes on to send \<open>Network.getResponseBody\<close> to tab 7; while that
  read is in flight a detach of tab 7 clears the table (\<open>r1\<close> has no entry any more);
  the read then comes back, and the handler still pushes the record of \<open>r1\<close> and
  posts \<open>records.added\<close> for it, after the status update of the detach.
\<close>

theorem stale_completion_counterexample:
  "issued
     (snd (proceed failing_debugger
             (handleDebuggerEvent failing_debugger 2000 (Some 7) EVENT_LOADING_FINISHED
                sample_finished sample_engine)))
     = [SendCommand (Some 7) ''Network.getResponseBody'' (Some ''r1'')]
   \<and> pendingRequests
       (snd (meanwhile (detachFromTab 7)
               (proceed failing_debugger
                  (handleDebuggerEvent failing_debugger 2000 (Some 7) EVENT_LOADING_FINISHED
                     sample_finished sample_engine)))) ''r1'' = None
   \<and> recordBuffer
       (snd (proceed failing_debugger
               (meanwhile (detachFromTab 7)
                  (proceed failing_debugger
                     (handleDebuggerEvent failing_debugger 2000 (Some 7) EVENT_LOADING_FINISHED
                        sample_finished sample_engine))))) = [stale_record]
   \<and> posted
       (snd (proceed failing_debugger
               (meanwhile (detachFromTab 7)
                  (proceed failing_debugger
                     (handleDebuggerEvent failing_debugger 2000 (Some 7) EVENT_LOADING_FINISHED
                        sample_finished sample_engine)))))
       = [(1, StatusUpdate None), (1, RecordsAdded stale_record)]
   \<and> issued
       (snd (proceed failing_debugger
               (meanwhile (detachFromTab 7)
                  (proceed failing_debugger
                     (handleDebuggerEvent failing_debugger 2000 (Some 7) EVENT_LOADING_FINISHED
                        sample_finished sample_engine)))))
       = [SendCommand (Some 7) ''Network.getResponseBody'' (Some ''r1''), ChromeDetach 7]"
proof -
  have start: "handleDebuggerEvent failing_debugger 2000 (Some 7) EVENT_LOADING_FINISHED
      sample_finished sample_engine
      = (Some (AwaitRequestBodyFinished ''r1'' 10 sample_pending
                 \<lparr>rq_text = None, rq_truncated = False, rq_error = None\<rparr>), sample_engine)"
    by (simp add: sample_engine_def idle_engine_def sample_pending_def sample_finished_def
        handleDebuggerEvent_def EVENT_REQUEST_WILL_BE_SENT_def EVENT_RESPONSE_RECEIVED_def
        EVENT_LOADING_FINISHED_def parseLoadingFinished_def handleLoadingFinished_start_def
        buildRequestBody_def)
  have fetch: "proceed failing_debugger
      (Some (AwaitRequestBodyFinished ''r1'' 10 sample_pending
               \<lparr>rq_text = None, rq_truncated = False, rq_error = None\<rparr>), sample_engine)
      = (Some (AwaitBodyFinished ''r1'' 10 sample_pending
                 \<lparr>rq_text = None, rq_truncated = False, rq_error = None\<rparr>
                 (rec_body stale_record)),
         sample_engine\<lparr>issued := [SendCommand (Some 7) ''Network.getResponseBody'' (Some ''r1'')]\<rparr>)"
    by (simp add: sample_engine_def idle_engine_def failing_debugger_def stale_record_def
        buildResponseBody_def sendDebuggerCommand_def createError_def MAX_BODY_BYTES_def)
  show ?thesis
    unfolding start fetch
    by (simp add: sample_engine_def idle_engine_def sample_pending_def stale_record_def
        meanwhile_def detachFromTab_def sendStatusUpdate_def broadcast_def pushRecord_def
        MAX_RECORDS_def)
qed

lemma pendingRequests_detachFromTab:
  "attachedTabId st = Some tabId \<Longrightarrow> pendingRequests (detachFromTab tabId st) = Map.empty"
  by (simp add: detachFromTab_def sendStatusUpdate_def broadcast_def)

lemma pendingRequests_attachToTab:
  "attachedTabId st \<noteq> Some tabId \<Longrightarrow>
   pendingRequests (snd (attachToTab dbg tabId st)) = Map.empty"
  by (auto simp: attachToTab_def sendDebuggerCommand_def sendStatusUpdate_def broadcast_def
      Let_def split: sum.splits)

lemma no_entry_discards:
  assumes "pendingRequests s requestId = None"
    and "asString (getProp params ''requestId'') = Some requestId"
  shows "handleDebuggerEvent dbg now src EVENT_LOADING_FINISHED params s = (None, s)"
    and "handleDebuggerEvent dbg now src EVENT_LOADING_FAILED params s = (None, s)"
  using assms
  by (auto simp: handleDebuggerEvent_def EVENT_REQUEST_WILL_BE_SENT_def
      EVENT_RESPONSE_RECEIVED_def EVENT_LOADING_FINISHED_def EVENT_LOADING_FAILED_def
      handleLoadingFinished_start_def handleLoadingFailed_start_def
      parseLoadingFinished_def parseLoadingFailed_def
      split: option.splits)

lemma pushRecord_explicit:
  "pushRecord r st =
     st\<lparr>recordBuffer :=
           (if MAX_RECORDS \<le> length (recordBuffer st) then tl (recordBuffer st)
            else recordBuffer st) @ [r],
        posted := posted st @ map (\<lambda>port. (port, RecordsAdded r)) (panelPorts st)\<rparr>"
  by (simp add: pushRecord_def broadcast_def)

text \<open>
  C8, amended. A detach of the attached tab, and an attach to another tab, leave no
  entry in the table. As long as a request id has no entry, a \<open>loadingFinished\<close> or
  \<open>loadingFailed\<close> event for it is discarded, whichever tab the engine is attached to:
  the engine stays as it is, so no record is pushed and nothing is posted. A handler
  that was already suspended when the entry went is not discarded, at whichever
  \<^verbatim>\<open>await\<close> it stands: \<open>handleLoadingFinished\<close> waiting for its request body goes on
  to build the response body, and \<open>handleLoadingFinished\<close> waiting for its response
  body and \<open>handleLoadingFailed\<close> waiting for its request body each append their
  record to the record buffer (dropping the oldest record when the buffer is full) and
  post \<open>records.added\<close> with it to every panel port, changing nothing else.
\<close>

theorem cleared_table_discards_later_events:
  "(attachedTabId st = Some tabId \<longrightarrow>
      pendingRequests (detachFromTab tabId st) requestId = None)
   \<and> (attachedTabId st \<noteq> Some tabId \<longrightarrow>
      pendingRequests (snd (attachToTab dbg tabId st)) requestId = None)
   \<and> (pendingRequests s requestId = None
        \<and> asString (getProp params ''requestId'') = Some requestId \<longrightarrow>
      handleDebuggerEvent dbg' now src EVENT_LOADING_FINISHED params s = (None, s)
      \<and> handleDebuggerEvent dbg' now src EVENT_LOADING_FAILED params s = (None, s))
   \<and> (pendingRequests s requestId = None \<longrightarrow>
      resume dbg' (AwaitRequestBodyFinished requestId encodedDataLength pending requestBody) s =
        (Some (AwaitBodyFinished requestId encodedDataLength pending requestBody
                 (fst (buildResponseBody dbg' (attachedTabId s) requestId encodedDataLength))),
         s\<lparr>issued := issued s
               @ snd (buildResponseBody dbg' (attachedTabId s) requestId encodedDataLength)\<rparr>)
      \<and> resume dbg' (AwaitBodyFinished requestId encodedDataLength pending requestBody body) s =
        (let r = \<lparr>rec_id = requestId, rec_url = p_url pending, rec_method = p_method pending,
                   rec_status = p_status pending, rec_mimeType = p_mimeType pending,
                   rec_resourceType = p_resourceType pending,
                   rec_timeStamp = p_timeStamp pending,
                   rec_encodedDataLength = encodedDataLength,
                   rec_requestBody = requestBody, rec_body = body\<rparr>
         in (None,
             s\<lparr>recordBuffer :=
                   (if MAX_RECORDS \<le> length (recordBuffer s) then tl (recordBuffer s)
                    else recordBuffer s) @ [r],
                posted := posted s @ map (\<lambda>port. (port, RecordsAdded r)) (panelPorts s)\<rparr>))
      \<and> resume dbg' (AwaitRequestBodyFailed requestId pending requestBody) s =
        (let r = \<lparr>rec_id = requestId, rec_url = p_url pending, rec_method = p_method pending,
                   rec_status = p_status pending, rec_mimeType = p_mimeType pending,
                   rec_resourceType = p_resourceType pending,
                   rec_timeStamp = p_timeStamp pending, rec_encodedDataLength = 0,
                   rec_requestBody = requestBody,
                   rec_body = \<lparr>rs_text = None, rs_isBase64 = False, rs_truncated = False,
                                rs_error = Some \<lparr>err_code = ''REQUEST_FAILED'',
                                                  err_message = MSG_REQUEST_FAILED,
                                                  err_cause = JUndefined\<rparr>\<rparr>\<rparr>
         in (None,
             s\<lparr>recordBuffer :=
                   (if MAX_RECORDS \<le> length (recordBuffer s) then tl (recordBuffer s)
                    else recordBuffer s) @ [r],
                posted := posted s @ map (\<lambda>port. (port, RecordsAdded r)) (panelPorts s)\<rparr>)))"
proof -
  have by_detach: "pendingRequests (detachFromTab tabId st) requestId = None"
    if "attachedTabId st = Some tabId"
    by (simp add: pendingRequests_detachFromTab [OF that])
  have by_attach: "pendingRequests (snd (attachToTab dbg tabId st)) requestId = None"
    if "attachedTabId st \<noteq> Some tabId"
    by (simp add: pendingRequests_attachToTab [OF that])
  have discard:
    "handleDebuggerEvent dbg' now src EVENT_LOADING_FINISHED params s = (None, s)
     \<and> handleDebuggerEvent dbg' now src EVENT_LOADING_FAILED params s = (None, s)"
    if "pendingRequests s requestId = None"
      "asString (getProp params ''requestId'') = Some requestId"
    using no_entry_discards [OF that] by simp
  have same: "s\<lparr>pendingRequests := (pendingRequests s)(requestId := None)\<rparr> = s"
    if "pendingRequests s requestId = None"
    using that by (simp add: fun_upd_idem)
  have first: "resume dbg' (AwaitRequestBodyFinished requestId encodedDataLength pending requestBody) s =
        (Some (AwaitBodyFinished requestId encodedDataLength pending requestBody
                 (fst (buildResponseBody dbg' (attachedTabId s) requestId encodedDataLength))),
         s\<lparr>issued := issued s
               @ snd (buildResponseBody dbg' (attachedTabId s) requestId encodedDataLength)\<rparr>)"
    by (simp add: split_beta)
  have second: "resume dbg' (AwaitBodyFinished requestId encodedDataLength pending requestBody body) s =
        (let r = \<lparr>rec_id = requestId, rec_url = p_url pending, rec_method = p_method pending,
                   rec_status = p_status pending, rec_mimeType = p_mimeType pending,
                   rec_resourceType = p_resourceType pending,
                   rec_timeStamp = p_timeStamp pending,
                   rec_encodedDataLength = encodedDataLength,
                   rec_requestBody = requestBody, rec_body = body\<rparr>
         in (None,
             s\<lparr>recordBuffer :=
                   (if MAX_RECORDS \<le> length (recordBuffer s) then tl (recordBuffer s)
                    else recordBuffer s) @ [r],
                posted := posted s @ map (\<lambda>port. (port, RecordsAdded r)) (panelPorts s)\<rparr>))"
    if "pendingRequests s requestId = None"
    by (simp add: same [OF that] pushRecord_explicit Let_def)
  have third: "resume dbg' (AwaitRequestBodyFailed requestId pending requestBody) s =
        (let r = \<lparr>rec_id = requestId, rec_url = p_url pending, rec_method = p_method pending,
                   rec_status = p_status pending, rec_mimeType = p_mimeType pending,
                   rec_resourceType = p_resourceType pending,
                   rec_timeStamp = p_timeStamp pending, rec_encodedDataLength = 0,
                   rec_requestBody = requestBody,
                   rec_body = \<lparr>rs_text = None, rs_isBase64 = False, rs_truncated = False,
                                rs_error = Some \<lparr>err_code = ''REQUEST_FAILED'',
                                                  err_message = MSG_REQUEST_FAILED,
                                                  err_cause = JUndefined\<rparr>\<rparr>\<rparr>
         in (None,
             s\<lparr>recordBuffer :=
                   (if MAX_RECORDS \<le> length (recordBuffer s) then tl (recordBuffer s)
                    else recordBuffer s) @ [r],
                posted := posted s @ map (\<lambda>port. (port, RecordsAdded r)) (panelPorts s)\<rparr>))"
    if "pendingRequests s requestId = None"
    by (simp add: same [OF that] pushRecord_explicit Let_def createError_def)
  from by_detach by_attach discard first second third show ?thesis by blast
qed

theorem cleared_table_discards_later_events_witness:
  "attachedTabId sample_engine = Some 7
   \<and> pendingRequests (detachFromTab 7 sample_engine) ''r1'' = None
   \<and> asString (getProp sample_finished ''requestId'') = Some ''r1''
   \<and> handleDebuggerEvent failing_debugger 2000 (Some 7) EVENT_LOADING_FINISHED sample_finished
        (detachFromTab 7 sample_engine) = (None, detachFromTab 7 sample_engine)
   \<and> recordBuffer
        (snd (resume failing_debugger
                (AwaitBodyFinished ''r1'' 10 sample_pending
                   \<lparr>rq_text = None, rq_truncated = False, rq_error = None\<rparr>
                   (rec_body stale_record))
                (detachFromTab 7 sample_engine))) = [stale_record]
   \<and> posted
        (snd (resume failing_debugger
                (AwaitBodyFinished ''r1'' 10 sample_pending
                   \<lparr>rq_text = None, rq_truncated = False, rq_error = None\<rparr>
                   (rec_body stale_record))
                (detachFromTab 7 sample_engine)))
       = [(1, StatusUpdate None), (1, RecordsAdded stale_record)]
   \<and> attachedTabId sample_engine \<noteq> Some 8
   \<and> pendingRequests (snd (attachToTab empty_debugger 8 sample_engine)) ''r1'' = None
   \<and> asString (getProp sample_failed ''requestId'') = Some ''r1''
   \<and> handleDebuggerEvent empty_debugger 2000 (Some 8) EVENT_LOADING_FAILED sample_failed
        (snd (attachToTab empty_debugger 8 sample_engine))
       = (None, snd (attachToTab empty_debugger 8 sample_engine))
   \<and> recordBuffer
        (snd (resume empty_debugger
                (AwaitRequestBodyFailed ''r1'' sample_pending
                   \<lparr>rq_text = None, rq_truncated = False, rq_error = None\<rparr>)
                (snd (attachToTab empty_debugger 8 sample_engine)))) = [failed_record]"
proof -
  let ?d = "detachFromTab 7 sample_engine"
  let ?a = "snd (attachToTab empty_debugger 8 sample_engine)"
  let ?rb = "\<lparr>rq_text = None, rq_truncated = False, rq_error = None\<rparr>"
  have attached: "attachedTabId sample_engine = Some 7"
    by (simp add: sample_engine_def idle_engine_def)
  have other: "attachedTabId sample_engine \<noteq> Some 8"
    by (simp add: sample_engine_def idle_engine_def)
  have fin: "asString (getProp sample_finished ''requestId'') = Some ''r1''"
    by (simp add: sample_finished_def)
  have fail: "asString (getProp sample_failed ''requestId'') = Some ''r1''"
    by (simp add: sample_failed_def)
  note d = cleared_table_discards_later_events
    [of sample_engine 7 "''r1''" empty_debugger ?d sample_finished failing_debugger 2000
       "Some 7" 10 sample_pending ?rb "rec_body stale_record"]
  note a = cleared_table_discards_later_events
    [of sample_engine 8 "''r1''" empty_debugger ?a sample_failed empty_debugger 2000
       "Some 8" 10 sample_pending ?rb "rec_body stale_record"]
  from d attached have d_clear: "pendingRequests ?d ''r1'' = None"
    by blast
  from a other have a_clear: "pendingRequests ?a ''r1'' = None"
    by blast
  from d d_clear fin have d_discard:
    "handleDebuggerEvent failing_debugger 2000 (Some 7) EVENT_LOADING_FINISHED sample_finished ?d
       = (None, ?d)"
    by blast
  from a a_clear fail have a_discard:
    "handleDebuggerEvent empty_debugger 2000 (Some 8) EVENT_LOADING_FAILED sample_failed ?a
       = (None, ?a)"
    by blast
  have d_state: "recordBuffer ?d = [] \<and> posted ?d = [(1, StatusUpdate None)]
                 \<and> panelPorts ?d = [1]"
    by (simp add: detachFromTab_def sample_engine_def idle_engine_def sendStatusUpdate_def
        broadcast_def)
  have a_state: "recordBuffer ?a = []"
    by (simp add: attachToTab_def detachFromTab_def sample_engine_def idle_engine_def
        sendStatusUpdate_def broadcast_def empty_debugger_def sendDebuggerCommand_def Let_def)
  have rec: "\<lparr>rec_id = ''r1'', rec_url = p_url sample_pending,
              rec_method = p_method sample_pending, rec_status = p_status sample_pending,
              rec_mimeType = p_mimeType sample_pending,
              rec_resourceType = p_resourceType sample_pending,
              rec_timeStamp = p_timeStamp sample_pending, rec_encodedDataLength = 10,
              rec_requestBody = ?rb, rec_body = rec_body stale_record\<rparr> = stale_record"
    by (simp add: sample_pending_def stale_record_def)
  have rec': "\<lparr>rec_id = ''r1'', rec_url = p_url sample_pending,
              rec_method = p_method sample_pending, rec_status = p_status sample_pending,
              rec_mimeType = p_mimeType sample_pending,
              rec_resourceType = p_resourceType sample_pending,
              rec_timeStamp = p_timeStamp sample_pending, rec_encodedDataLength = 0,
              rec_requestBody = ?rb,
              rec_body = \<lparr>rs_text = None, rs_isBase64 = False, rs_truncated = False,
                           rs_error = Some \<lparr>err_code = ''REQUEST_FAILED'',
                                             err_message = MSG_REQUEST_FAILED,
                                             err_cause = JUndefined\<rparr>\<rparr>\<rparr> = failed_record"
    by (simp add: sample_pending_def failed_record_def)
  from d d_clear have d_push:
    "recordBuffer (snd (resume failing_debugger
        (AwaitBodyFinished ''r1'' 10 sample_pending ?rb (rec_body stale_record)) ?d))
       = [stale_record]
     \<and> posted (snd (resume failing_debugger
        (AwaitBodyFinished ''r1'' 10 sample_pending ?rb (rec_body stale_record)) ?d))
       = [(1, StatusUpdate None), (1, RecordsAdded stale_record)]"
    by (simp add: Let_def rec d_state MAX_RECORDS_def)
  from a a_clear have a_push:
    "recordBuffer (snd (resume empty_debugger
        (AwaitRequestBodyFailed ''r1'' sample_pending ?rb) ?a)) = [failed_record]"
    by (simp add: Let_def rec' a_state MAX_RECORDS_def)
  from attached other fin fail d_clear a_clear d_discard a_discard d_push a_push
  show ?thesis by blast
qed

lemma buildRequestBody_commands:
  "c \<in> set (snd (buildRequestBody dbg tabId requestId h pd)) \<Longrightarrow>
   c = SendCommand tabId ''Network.getRequestPostData'' (Some requestId)"
  by (auto simp: buildRequestBody_def sendDebuggerCommand_def Let_def
      split: if_splits sum.splits option.splits)

text \<open>
  C9. For a \<open>loadingFailed\<close> event of the attached tab whose \<open>requestId\<close> has a
  pending request: the handler resolves the request body with \<open>buildRequestBody\<close>
  (whatever it yields, text or error), making at most the call
  \<open>Network.getRequestPostData\<close> and so never \<open>Network.getResponseBody\<close>. Run to its
  end it leaves the engine with the pending request removed, with the record appended
  to the record buffer (the oldest record dropped when the buffer is full), and with
  \<open>records.added\<close> for that record posted to every panel port; the record's response
  body has no text, \<open>truncated = false\<close> and the error \<open>REQUEST_FAILED\<close>, and its
  request body is the one \<open>buildRequestBody\<close> gave.
\<close>

theorem loading_failed_pushes_request_failed_record:
  assumes "sameTab src (attachedTabId st)"
    and "isRecord params"
    and "asString (getProp params ''requestId'') = Some requestId"
    and "requestId \<noteq> []"
    and "pendingRequests st requestId = Some pending"
  shows "\<exists>requestBody cmds.
           buildRequestBody dbg (attachedTabId st) requestId
             (p_hasPostData pending) (p_requestPostData pending) = (requestBody, cmds)
           \<and> (\<forall>c \<in> set cmds.
                 c = SendCommand (attachedTabId st) ''Network.getRequestPostData'' (Some requestId))
           \<and> handleDebuggerEvent dbg now src EVENT_LOADING_FAILED params st =
               (Some (AwaitRequestBodyFailed requestId pending requestBody),
                st\<lparr>issued := issued st @ cmds\<rparr>)
           \<and> (let r = \<lparr>rec_id = requestId, rec_url = p_url pending,
                         rec_method = p_method pending, rec_status = p_status pending,
                         rec_mimeType = p_mimeType pending,
                         rec_resourceType = p_resourceType pending,
                         rec_timeStamp = p_timeStamp pending, rec_encodedDataLength = 0,
                         rec_requestBody = requestBody,
                         rec_body = \<lparr>rs_text = None, rs_isBase64 = False,
                                      rs_truncated = False,
                                      rs_error = Some \<lparr>err_code = ''REQUEST_FAILED'',
                                                        err_message = MSG_REQUEST_FAILED,
                                                        err_cause = JUndefined\<rparr>\<rparr>\<rparr>
               in uninterrupted dbg
                    (handleDebuggerEvent dbg now src EVENT_LOADING_FAILED params st) =
                  st\<lparr>issued := issued st @ cmds,
                     pendingRequests := (pendingRequests st)(requestId := None),
                     recordBuffer :=
                       (if MAX_RECORDS \<le> length (recordBuffer st) then tl (recordBuffer st)
                        else recordBuffer st) @ [r],
                     posted := posted st
                       @ map (\<lambda>port. (port, RecordsAdded r)) (panelPorts st)\<rparr>)"
proof -
  obtain requestBody cmds where rb:
    "buildRequestBody dbg (attachedTabId st) requestId
       (p_hasPostData pending) (p_requestPostData pending) = (requestBody, cmds)"
    by (cases "buildRequestBody dbg (attachedTabId st) requestId
                 (p_hasPostData pending) (p_requestPostData pending)")
  from assms(1) obtain tabId where tab: "attachedTabId st = Some tabId"
    by (cases src; cases "attachedTabId st") auto
  have cmds: "\<forall>c \<in> set cmds.
      c = SendCommand (attachedTabId st) ''Network.getRequestPostData'' (Some requestId)"
    using buildRequestBody_commands [of _ dbg "attachedTabId st" requestId
        "p_hasPostData pending" "p_requestPostData pending"]
    by (simp add: rb)
  have parsed: "parseLoadingFailed params = Some requestId"
    using assms(2,3,4) by (simp add: parseLoadingFailed_def)
  have start: "handleDebuggerEvent dbg now src EVENT_LOADING_FAILED params st =
      (Some (AwaitRequestBodyFailed requestId pending requestBody),
       st\<lparr>issued := issued st @ cmds\<rparr>)"
    using assms(1,5) rb tab parsed
    by (simp add: handleDebuggerEvent_def EVENT_REQUEST_WILL_BE_SENT_def
        EVENT_RESPONSE_RECEIVED_def EVENT_LOADING_FINISHED_def EVENT_LOADING_FAILED_def
        handleLoadingFailed_start_def)
  have finish: "let r = \<lparr>rec_id = requestId, rec_url = p_url pending,
                         rec_method = p_method pending, rec_status = p_status pending,
                         rec_mimeType = p_mimeType pending,
                         rec_resourceType = p_resourceType pending,
                         rec_timeStamp = p_timeStamp pending, rec_encodedDataLength = 0,
                         rec_requestBody = requestBody,
                         rec_body = \<lparr>rs_text = None, rs_isBase64 = False,
                                      rs_truncated = False,
                                      rs_error = Some \<lparr>err_code = ''REQUEST_FAILED'',
                                                        err_message = MSG_REQUEST_FAILED,
                                                        err_cause = JUndefined\<rparr>\<rparr>\<rparr>
               in uninterrupted dbg
                    (handleDebuggerEvent dbg now src EVENT_LOADING_FAILED params st) =
                  st\<lparr>issued := issued st @ cmds,
                     pendingRequests := (pendingRequests st)(requestId := None),
                     recordBuffer :=
                       (if MAX_RECORDS \<le> length (recordBuffer st) then tl (recordBuffer st)
                        else recordBuffer st) @ [r],
                     posted := posted st
                       @ map (\<lambda>port. (port, RecordsAdded r)) (panelPorts st)\<rparr>"
    unfolding start
    by (simp add: uninterrupted_def createError_def pushRecord_def broadcast_def Let_def)
  from rb cmds start finish show ?thesis by blast
qed

theorem loading_failed_pushes_request_failed_record_witness:
  "sameTab (Some 7) (attachedTabId post_engine)
   \<and> isRecord post_failed
   \<and> asString (getProp post_failed ''requestId'') = Some ''r2''
   \<and> pendingRequests post_engine ''r2'' = Some post_pending
   \<and> recordBuffer (uninterrupted failing_debugger
        (handleDebuggerEvent failing_debugger 2000 (Some 7) EVENT_LOADING_FAILED
           post_failed post_engine)) = [post_failed_record]
   \<and> posted (uninterrupted failing_debugger
        (handleDebuggerEvent failing_debugger 2000 (Some 7) EVENT_LOADING_FAILED
           post_failed post_engine)) = [(1, RecordsAdded post_failed_record)]
   \<and> pendingRequests (uninterrupted failing_debugger
        (handleDebuggerEvent failing_debugger 2000 (Some 7) EVENT_LOADING_FAILED
           post_failed post_engine)) ''r2'' = None
   \<and> issued (uninterrupted failing_debugger
        (handleDebuggerEvent failing_debugger 2000 (Some 7) EVENT_LOADING_FAILED
           post_failed post_engine))
       = [SendCommand (Some 7) ''Network.getRequestPostData'' (Some ''r2'')]"
proof -
  have h1: "sameTab (Some 7) (attachedTabId post_engine)"
    by (simp add: post_engine_def idle_engine_def)
  have h2: "isRecord post_failed"
    by (simp add: post_failed_def)
  have h3: "asString (getProp post_failed ''requestId'') = Some ''r2''"
    by (simp add: post_failed_def)
  have h4: "''r2'' \<noteq> []" by simp
  have h5: "pendingRequests post_engine ''r2'' = Some post_pending"
    by (simp add: post_engine_def idle_engine_def)
  from loading_failed_pushes_request_failed_record
         [OF h1 h2 h3 h4 h5, of failing_debugger 2000]
  obtain requestBody cmds where
    rb: "buildRequestBody failing_debugger (attachedTabId post_engine) ''r2''
           (p_hasPostData post_pending) (p_requestPostData post_pending)
         = (requestBody, cmds)"
    and fin: "let r = \<lparr>rec_id = ''r2'', rec_url = p_url post_pending,
                       rec_method = p_method post_pending, rec_status = p_status post_pending,
                       rec_mimeType = p_mimeType post_pending,
                       rec_resourceType = p_resourceType post_pending,
                       rec_timeStamp = p_timeStamp post_pending, rec_encodedDataLength = 0,
                       rec_requestBody = requestBody,
                       rec_body = \<lparr>rs_text = None, rs_isBase64 = False,
                                    rs_truncated = False,
                                    rs_error = Some \<lparr>err_code = ''REQUEST_FAILED'',
                                                      err_message = MSG_REQUEST_FAILED,
                                                      err_cause = JUndefined\<rparr>\<rparr>\<rparr>
              in uninterrupted failing_debugger
                   (handleDebuggerEvent failing_debugger 2000 (Some 7) EVENT_LOADING_FAILED
                      post_failed post_engine) =
                 post_engine\<lparr>issued := issued post_engine @ cmds,
                    pendingRequests := (pendingRequests post_engine)(''r2'' := None),
                    recordBuffer :=
                      (if MAX_RECORDS \<le> length (recordBuffer post_engine)
                       then tl (recordBuffer post_engine)
                       else recordBuffer post_engine) @ [r],
                    posted := posted post_engine
                      @ map (\<lambda>port. (port, RecordsAdded r)) (panelPorts post_engine)\<rparr>"
    by blast
  from rb have body: "requestBody = rec_requestBody post_failed_record"
    and one: "cmds = [SendCommand (Some 7) ''Network.getRequestPostData'' (Some ''r2'')]"
    by (simp_all add: buildRequestBody_def post_pending_def post_engine_def idle_engine_def
        sendDebuggerCommand_def failing_debugger_def createError_def post_failed_record_def)
  have rec: "\<lparr>rec_id = ''r2'', rec_url = p_url post_pending,
               rec_method = p_method post_pending, rec_status = p_status post_pending,
               rec_mimeType = p_mimeType post_pending,
               rec_resourceType = p_resourceType post_pending,
               rec_timeStamp = p_timeStamp post_pending, rec_encodedDataLength = 0,
               rec_requestBody = rec_requestBody post_failed_record,
               rec_body = \<lparr>rs_text = None, rs_isBase64 = False, rs_truncated = False,
                            rs_error = Some \<lparr>err_code = ''REQUEST_FAILED'',
                                              err_message = MSG_REQUEST_FAILED,
                                              err_cause = JUndefined\<rparr>\<rparr>\<rparr> = post_failed_record"
    by (simp add: post_pending_def post_failed_record_def)
  have st: "issued post_engine = [] \<and> recordBuffer post_engine = []
            \<and> posted post_engine = [] \<and> panelPorts post_engine = [1]"
    by (simp add: post_engine_def idle_engine_def)
  from fin have final: "uninterrupted failing_debugger
        (handleDebuggerEvent failing_debugger 2000 (Some 7) EVENT_LOADING_FAILED
           post_failed post_engine) =
      post_engine\<lparr>issued := [SendCommand (Some 7) ''Network.getRequestPostData'' (Some ''r2'')],
         pendingRequests := (pendingRequests post_engine)(''r2'' := None),
         recordBuffer := [post_failed_record],
         posted := [(1, RecordsAdded post_failed_record)]\<rparr>"
    unfolding body one
    by (simp add: Let_def rec st MAX_RECORDS_def)
  have "recordBuffer (uninterrupted failing_debugger
        (handleDebuggerEvent failing_debugger 2000 (Some 7) EVENT_LOADING_FAILED
           post_failed post_engine)) = [post_failed_record]
   \<and> posted (uninterrupted failing_debugger
        (handleDebuggerEvent failing_debugger 2000 (Some 7) EVENT_LOADING_FAILED
           post_failed post_engine)) = [(1, RecordsAdded post_failed_record)]
   \<and> pendingRequests (uninterrupted failing_debugger
        (handleDebuggerEvent failing_debugger 2000 (Some 7) EVENT_LOADING_FAILED
           post_failed post_engine)) ''r2'' = None
   \<and> issued (uninterrupted failing_debugger
        (handleDebuggerEvent failing_debugger 2000 (Some 7) EVENT_LOADING_FAILED
           post_failed post_engine))
       = [SendCommand (Some 7) ''Network.getRequestPostData'' (Some ''r2'')]"
    unfolding final by simp
  with h1 h2 h3 h5 show ?thesis by blast
qed

text \<open>
  C10. A record pushed by \<open>handleLoadingFailed\<close> has \<open>encodedDataLength = 0\<close>, in an
  uninterrupted run and in whatever state the suspended handler is resumed; the record
  pushed by \<open>handleLoadingFinished\<close> has the \<open>encodedDataLength\<close> of its event.
\<close>

theorem failed_path_records_zero_length:
  assumes "sameTab src (attachedTabId st)"
    and "isRecord params"
    and "asString (getProp params ''requestId'') = Some requestId"
    and "requestId \<noteq> []"
    and "asNumber (getProp params ''encodedDataLength'') = Some encodedDataLength"
    and "pendingRequests st requestId = Some pending"
  shows "rec_encodedDataLength
           (last (recordBuffer
              (uninterrupted dbg (handleDebuggerEvent dbg now src EVENT_LOADING_FAILED params st)))) = 0
         \<and> rec_encodedDataLength
           (last (recordBuffer
              (uninterrupted dbg (handleDebuggerEvent dbg now src EVENT_LOADING_FINISHED params st))))
             = encodedDataLength
         \<and> rec_encodedDataLength
           (last (recordBuffer (snd (resume dbg' (AwaitRequestBodyFailed rid p rb) st2)))) = 0"
proof -
  from assms(1) obtain tabId where tab: "attachedTabId st = Some tabId"
    by (cases src; cases "attachedTabId st") auto
  have failed: "parseLoadingFailed params = Some requestId"
    using assms(2,3,4) by (simp add: parseLoadingFailed_def)
  have finished: "parseLoadingFinished params = Some (requestId, encodedDataLength)"
    using assms(2,3,4,5) by (simp add: parseLoadingFinished_def)
  have a: "rec_encodedDataLength
           (last (recordBuffer
              (uninterrupted dbg (handleDebuggerEvent dbg now src EVENT_LOADING_FAILED params st)))) = 0"
    using assms(1,6) tab failed
    by (simp add: handleDebuggerEvent_def EVENT_REQUEST_WILL_BE_SENT_def
        EVENT_RESPONSE_RECEIVED_def EVENT_LOADING_FINISHED_def EVENT_LOADING_FAILED_def
        handleLoadingFailed_start_def uninterrupted_def recordBuffer_pushRecord
        split: prod.splits)
  have b: "rec_encodedDataLength
           (last (recordBuffer
              (uninterrupted dbg (handleDebuggerEvent dbg now src EVENT_LOADING_FINISHED params st))))
             = encodedDataLength"
    using assms(1,6) tab finished
    by (simp add: handleDebuggerEvent_def EVENT_REQUEST_WILL_BE_SENT_def
        EVENT_RESPONSE_RECEIVED_def EVENT_LOADING_FINISHED_def
        handleLoadingFinished_start_def uninterrupted_def recordBuffer_pushRecord
        split: prod.splits)
  have c: "rec_encodedDataLength
           (last (recordBuffer (snd (resume dbg' (AwaitRequestBodyFailed rid p rb) st2)))) = 0"
    by (simp add: recordBuffer_pushRecord)
  from a b c show ?thesis by blast
qed

theorem failed_path_records_zero_length_witness:
  "sameTab (Some 7) (attachedTabId sample_engine)
   \<and> isRecord sample_finished
   \<and> asString (getProp sample_finished ''requestId'') = Some ''r1''
   \<and> asNumber (getProp sample_finished ''encodedDataLength'') = Some 10
   \<and> pendingRequests sample_engine ''r1'' = Some sample_pending
   \<and> rec_encodedDataLength
       (last (recordBuffer
          (uninterrupted empty_debugger
             (handleDebuggerEvent empty_debugger 2000 (Some 7) EVENT_LOADING_FAILED
                sample_finished sample_engine)))) = 0
   \<and> rec_encodedDataLength
       (last (recordBuffer
          (uninterrupted empty_debugger
             (handleDebuggerEvent empty_debugger 2000 (Some 7) EVENT_LOADING_FINISHED
                sample_finished sample_engine)))) = 10"
proof -
  have h1: "sameTab (Some 7) (attachedTabId sample_engine)"
    by (simp add: sample_engine_def idle_engine_def)
  have h2: "isRecord sample_finished"
    by (simp add: sample_finished_def)
  have h3: "asString (getProp sample_finished ''requestId'') = Some ''r1''"
    by (simp add: sample_finished_def)
  have h4: "''r1'' \<noteq> []" by simp
  have h5: "asNumber (getProp sample_finished ''encodedDataLength'') = Some 10"
    by (simp add: sample_finished_def)
  have h6: "pendingRequests sample_engine ''r1'' = Some sample_pending"
    by (simp add: sample_engine_def idle_engine_def)
  show ?thesis
    using h1 h2 h3 h5 h6
      failed_path_records_zero_length [OF h1 h2 h3 h4 h5 h6, of empty_debugger 2000]
    by simp
qed

section \<open>The panel parser on the engine's messages\<close>

text \<open>
  Where the parser and the engine agree: a message whose errors and records are well
  formed in the sense above is accepted and rebuilt as it was. For a record the MIME
  type decides: with the other fields well formed, the record is rejected exactly when
  its MIME type is empty.
\<close>

lemma parseAppError_js_of:
  "wellFormedError (Some e) \<Longrightarrow> parseAppError (js_of_AppError e) = Some e"
  by (simp add: wellFormedError_def parseAppError_def js_of_AppError_def)

lemma js_of_AppError_defined: "js_of_AppError e \<noteq> JUndefined"
  by (simp add: js_of_AppError_def)

lemma parseRequestBody_js_of:
  "wellFormedError (rq_error b) \<Longrightarrow> parseRequestBody (js_of_RequestBody b) = Some b"
  by (cases b; cases "rq_text b"; cases "rq_error b")
     (auto simp: parseRequestBody_def js_of_RequestBody_def parseAppError_js_of
        js_of_AppError_defined)

lemma parseResponseBody_js_of:
  "wellFormedError (rs_error b) \<Longrightarrow> parseResponseBody (js_of_ResponseBody b) = Some b"
  by (cases b; cases "rs_text b"; cases "rs_error b")
     (auto simp: parseResponseBody_def js_of_ResponseBody_def parseAppError_js_of
        js_of_AppError_defined)

lemma parseResponseRecord_js_of:
  assumes "rec_id r \<noteq> []" "rec_url r \<noteq> []" "rec_method r \<noteq> []"
    "rec_resourceType r \<noteq> []"
    "wellFormedError (rq_error (rec_requestBody r))"
    "wellFormedError (rs_error (rec_body r))"
  shows "parseResponseRecord (js_of_ResponseRecord r) =
           (if rec_mimeType r = [] then None else Some r)"
  using assms
  by (cases r)
     (simp add: parseResponseRecord_def js_of_ResponseRecord_def parseRequestBody_js_of
        parseResponseBody_js_of)

lemma parseRecords_js_of:
  "list_all wellFormedRecord rs \<Longrightarrow>
   parseRecords parsedRecords (map js_of_ResponseRecord rs) = Some (parsedRecords @ rs)"
proof (induction rs arbitrary: parsedRecords)
  case Nil
  then show ?case by simp
next
  case (Cons r rs)
  then have "parseResponseRecord (js_of_ResponseRecord r) = Some r"
    by (simp add: wellFormedRecord_def parseResponseRecord_js_of)
  with Cons show ?case by simp
qed

lemma parseBackgroundMessage_js_of:
  assumes "case m of
             StatusUpdate tab \<Rightarrow> True
           | RecordsSnapshot records tab \<Rightarrow> list_all wellFormedRecord records
           | RecordsAdded r \<Rightarrow> wellFormedRecord r
           | ErrorMessage e \<Rightarrow> wellFormedError (Some e)"
  shows "parseBackgroundMessage (js_of_message m) = Some m"
proof (cases m)
  case (StatusUpdate tab)
  then show ?thesis
    by (cases tab) (simp_all add: parseBackgroundMessage_def)
next
  case (RecordsSnapshot records tab)
  with assms have "parseRecords [] (map js_of_ResponseRecord records) = Some records"
    by (simp add: parseRecords_js_of)
  with RecordsSnapshot show ?thesis
    by (cases tab) (simp_all add: parseBackgroundMessage_def)
next
  case (RecordsAdded r)
  with assms have "parseResponseRecord (js_of_ResponseRecord r) = Some r"
    by (simp add: wellFormedRecord_def parseResponseRecord_js_of)
  with RecordsAdded show ?thesis
    by (simp add: parseBackgroundMessage_def)
next
  case (ErrorMessage e)
  with assms have "parseAppError (js_of_AppError e) = Some e"
    by (simp add: parseAppError_js_of)
  with ErrorMessage show ?thesis
    by (simp add: parseBackgroundMessage_def)
qed

text \<open>
  C1 at a failing input. Request \<open>r1\<close> is announced on the attached tab and then fails
  to load before any response headers arrive, so its MIME type is still the empty
  string the announcement gave it. The engine posts \<open>records.added\<close> with that record;
  \<open>parseResponseRecord\<close> rejects it (\<^verbatim>\<open>!mimeType\<close> holds for the empty string), so
  \<open>parseBackgroundMessage\<close> returns \<^verbatim>\<open>null\<close> for the message, and for every later
  snapshot that contains the record.
\<close>

theorem failed_request_record_rejected_by_panel:
  "snd (handleDebuggerEvent empty_debugger 1000 (Some 7) EVENT_REQUEST_WILL_BE_SENT
          sample_request idle_engine) = sample_engine
   \<and> posted (uninterrupted empty_debugger
        (handleDebuggerEvent empty_debugger 2000 (Some 7) EVENT_LOADING_FAILED
           sample_failed sample_engine)) = [(1, RecordsAdded failed_record)]
   \<and> parseResponseRecord (js_of_ResponseRecord failed_record) = None
   \<and> parseBackgroundMessage (js_of_message (RecordsAdded failed_record)) = None
   \<and> parseBackgroundMessage (js_of_message (RecordsSnapshot [failed_record] (Some 7))) = None"
proof -
  have announce: "snd (handleDebuggerEvent empty_debugger 1000 (Some 7)
      EVENT_REQUEST_WILL_BE_SENT sample_request idle_engine) = sample_engine"
    by (simp add: handleDebuggerEvent_def EVENT_REQUEST_WILL_BE_SENT_def idle_engine_def
        sample_request_def sample_engine_def sample_pending_def parseRequestWillBeSent_def
        isAllowedResourceType_def ALLOWED_RESOURCE_TYPES_def)
  have fail: "posted (uninterrupted empty_debugger
        (handleDebuggerEvent empty_debugger 2000 (Some 7) EVENT_LOADING_FAILED
           sample_failed sample_engine)) = [(1, RecordsAdded failed_record)]"
    by (simp add: handleDebuggerEvent_def EVENT_REQUEST_WILL_BE_SENT_def
        EVENT_RESPONSE_RECEIVED_def EVENT_LOADING_FINISHED_def EVENT_LOADING_FAILED_def
        sample_failed_def sample_engine_def idle_engine_def sample_pending_def
        parseLoadingFailed_def handleLoadingFailed_start_def buildRequestBody_def
        uninterrupted_def pushRecord_def broadcast_def failed_record_def createError_def)
  have rec: "parseResponseRecord (js_of_ResponseRecord failed_record) = None"
    by (simp add: parseResponseRecord_def js_of_ResponseRecord_def failed_record_def)
  have added: "parseBackgroundMessage (js_of_message (RecordsAdded failed_record)) = None"
    by (simp add: parseBackgroundMessage_def rec)
  have snapshot:
    "parseBackgroundMessage (js_of_message (RecordsSnapshot [failed_record] (Some 7))) = None"
    by (simp add: parseBackgroundMessage_def rec)
  from announce fail rec added snapshot show ?thesis by blast
qed

end
